theory Spec2Isabelle
  imports Complex_Main
begin

text \<open>
  The communication agent answers customer emails through a language model. This theory
  embeds its rule-based tone detector (\<open>tone_detector.py\<close>) and the function that builds
  the prompt and the response (\<open>langchain_service.py\<close>, with its caller in \<open>ai_agent.py\<close>
  and the endpoint), and proves the properties C1 to C10 of the specification or shows
  where the code departs from them.
\<close>

section \<open>Python values used by the service\<close>

text \<open>
  A Python \<open>str\<close> is a sequence of Unicode code points, and \<open>len\<close> counts code points.
  Text that comes from a customer or from the language model is therefore a list of code
  points (natural numbers); \<open>str\<close> embeds an ASCII literal of the source. Identifiers of the
  program itself (dictionary keys, the values of the tone enumeration) stay HOL strings.
\<close>

type_synonym pystr = "nat list"

definition str :: "string \<Rightarrow> pystr" where
  "str s = map of_char s"

text \<open>
  Exceptions are values. Each constructor is a Python exception class and carries the
  text that \<open>str(e)\<close> gives; \<open>GenerationError\<close> stands for whatever the language-model
  client raises, and \<open>ValidationError\<close> for pydantic's, whose text is only indicated.
\<close>

datatype error =
    ZeroDivisionError pystr
  | AttributeError pystr
  | KeyError pystr
  | ValueError pystr
  | ValidationError pystr
  | IndexError pystr
  | GenerationError pystr

fun error_str :: "error \<Rightarrow> pystr" where
  "error_str (ZeroDivisionError m) = m"
| "error_str (AttributeError m) = m"
| "error_str (KeyError m) = m"
| "error_str (ValueError m) = m"
| "error_str (ValidationError m) = m"
| "error_str (IndexError m) = m"
| "error_str (GenerationError m) = m"

definition quoted :: "pystr \<Rightarrow> pystr" where
  "quoted s = [39] @ s @ [39]"

definition and_then :: "error + 'a \<Rightarrow> ('a \<Rightarrow> error + 'b) \<Rightarrow> error + 'b" where
  "and_then m f = (case m of Inl e \<Rightarrow> Inl e | Inr x \<Rightarrow> f x)"

section \<open>The regular expressions of the tone detector\<close>

text \<open>
  \<open>tone_detector.py\<close> only calls \<open>re.search(pattern, text)\<close> and only looks at whether a
  match exists. Its fourteen patterns are built from four constructs: an alternation of
  literal strings, the word boundary \<open>\b\<close>, a repeated character \<open>c{n,}\<close> and
  concatenation; \<open>(?i)\<close> at the start of a pattern makes the whole pattern ignore case.
  A pattern is a pair of the ignore-case flag and the expression.
\<close>

datatype regex =
    Lits "pystr list"
  | WordBoundary
  | AtLeast nat nat
  | Seq regex regex

type_synonym pattern = "bool \<times> regex"

text \<open>
  Case-insensitive comparison as the \<open>re\<close> module does it for a \<open>str\<close> pattern: the
  character of the text is lowered with the simple Unicode lower-case mapping and compared
  with the lowered pattern character or one of its listed equivalents. The pattern
  characters under \<open>(?i)\<close> in this program are ASCII letters and the space. Besides the two
  ASCII cases of a letter, exactly four other code points match one of them: U+0130 and
  U+0131 match \<open>i\<close>, U+017F matches \<open>s\<close> and U+212A matches \<open>k\<close>.
\<close>

definition sre_lower :: "nat \<Rightarrow> nat" where
  "sre_lower c =
     (if 65 \<le> c \<and> c \<le> 90 then c + 32
      else if c = 0x130 then 0x69
      else if c = 0x212A then 0x6B
      else c)"

definition char_eq :: "bool \<Rightarrow> nat \<Rightarrow> nat \<Rightarrow> bool" where
  "char_eq ic p c =
     (if ic then
        (let lo = sre_lower p; c' = sre_lower c
         in c' = lo \<or> (lo = 0x69 \<and> c' = 0x131) \<or> (lo = 0x73 \<and> c' = 0x17F))
      else c = p)"

text \<open>
  \<open>\b\<close> looks at the character before and the character after the position. A word
  character is an alphanumeric character or the underscore. For ASCII that is
  \<open>[0-9A-Za-z_]\<close>; for the other code points it is the Unicode database's
  alphanumerics, a table that is not part of this program and is taken as the
  parameter \<open>U\<close> of every function that matches a pattern.
\<close>

definition is_word :: "(nat \<Rightarrow> bool) \<Rightarrow> nat \<Rightarrow> bool" where
  "is_word U c =
     (if c < 128 then
        (48 \<le> c \<and> c \<le> 57) \<or> (65 \<le> c \<and> c \<le> 90) \<or> c = 95 \<or> (97 \<le> c \<and> c \<le> 122)
      else U c)"

text \<open>
  A position in the text is the character before it (if any) and the text that remains.
\<close>

type_synonym position = "nat option \<times> pystr"

fun word_before :: "(nat \<Rightarrow> bool) \<Rightarrow> nat option \<Rightarrow> bool" where
  "word_before U None = False"
| "word_before U (Some c) = is_word U c"

fun word_after :: "(nat \<Rightarrow> bool) \<Rightarrow> pystr \<Rightarrow> bool" where
  "word_after U [] = False"
| "word_after U (c # cs) = is_word U c"

fun match_lit :: "bool \<Rightarrow> pystr \<Rightarrow> position \<Rightarrow> position option" where
  "match_lit ic [] s = Some s"
| "match_lit ic (p # ps) (prev, []) = None"
| "match_lit ic (p # ps) (prev, c # cs) =
     (if char_eq ic p c then match_lit ic ps (Some c, cs) else None)"

fun run :: "bool \<Rightarrow> nat \<Rightarrow> position \<Rightarrow> position list" where
  "run ic c (prev, []) = [(prev, [])]"
| "run ic c (prev, x # xs) =
     (prev, x # xs) # (if char_eq ic c x then run ic c (Some x, xs) else [])"

text \<open>
  \<open>rmatch U ic r s\<close> lists the positions at which a match of \<open>r\<close> that starts at \<open>s\<close>
  can end: the choices a backtracking matcher has. \<open>run\<close> lists the positions after
  zero, one, two, ... copies of a character.
\<close>

fun rmatch :: "(nat \<Rightarrow> bool) \<Rightarrow> bool \<Rightarrow> regex \<Rightarrow> position \<Rightarrow> position list" where
  "rmatch U ic (Lits ws) s =
     concat (map (\<lambda>w. case match_lit ic w s of None \<Rightarrow> [] | Some s' \<Rightarrow> [s']) ws)"
| "rmatch U ic WordBoundary (prev, rest) =
     (if word_before U prev \<noteq> word_after U rest then [(prev, rest)] else [])"
| "rmatch U ic (AtLeast n c) s = drop n (run ic c s)"
| "rmatch U ic (Seq r1 r2) s = concat (map (rmatch U ic r2) (rmatch U ic r1 s))"

fun positions :: "nat option \<Rightarrow> pystr \<Rightarrow> position list" where
  "positions prev [] = [(prev, [])]"
| "positions prev (c # cs) = (prev, c # cs) # positions (Some c) cs"

text \<open>\<open>re.search\<close> succeeds when a match starts at some position of the text.\<close>

definition re_search :: "(nat \<Rightarrow> bool) \<Rightarrow> pattern \<Rightarrow> pystr \<Rightarrow> bool" where
  "re_search U p t = list_ex (\<lambda>s. rmatch U (fst p) (snd p) s \<noteq> []) (positions None t)"

section \<open>\<open>ToneDetector\<close>: the pattern lists\<close>

definition urgency_patterns :: "pattern list" where
  "urgency_patterns =
     [(False, Seq WordBoundary (Seq (Lits (map str
         [''URGENT'', ''ASAP'', ''EMERGENCY'', ''CRITICAL'', ''IMMEDIATE''])) WordBoundary)),
      (True, Lits (map str
         [''urgent'', ''emergency'', ''asap'', ''right away'', ''immediately'', ''right now''])),
      (False, AtLeast 2 (of_char CHR ''!''))]"

definition complaint_patterns :: "pattern list" where
  "complaint_patterns =
     [(True, Lits (map str
         [''disappointed'', ''frustrated'', ''angry'', ''upset'', ''terrible'', ''worst''])),
      (True, Lits (map str
         [''not acceptable'', ''unacceptable'', ''poor'', ''bad experience''])),
      (True, Lits (map str
         [''third time'', ''again'', ''still not'', ''yet to'', ''never''])),
      (True, Lits (map str
         [''complaint'', ''issue'', ''problem'', ''error'', ''bug'', ''failed'', ''failure'']))]"

definition formal_patterns :: "pattern list" where
  "formal_patterns =
     [(True, Lits (map str
         [''dear'', ''sincerely'', ''regards'', ''pursuant'', ''accordingly''])),
      (True, Lits (map str
         [''request'', ''inquire'', ''regarding'', ''concerning'', ''matter''])),
      (True, Lits (map str
         [''documentation'', ''legal'', ''compliance'', ''policy'', ''regulation'']))]"

text \<open>The last positive pattern lists three emoji: U+1F60A, U+1F44D and U+1F64F.\<close>

definition positive_patterns :: "pattern list" where
  "positive_patterns =
     [(True, Lits (map str
         [''thank'', ''appreciate'', ''great'', ''good'', ''excellent'', ''wonderful''])),
      (True, Lits (map str
         [''love'', ''enjoy'', ''pleased'', ''happy'', ''satisfied'', ''helpful''])),
      (True, Lits (map str
         [''feature request'', ''suggestion'', ''idea'', ''feedback''])),
      (False, Lits [[0x1F60A], [0x1F44D], [0x1F64F]])]"

section \<open>\<open>ToneDetector\<close>: scoring\<close>

text \<open>
  Scores are Python floats in the source. Every score is a quotient \<open>k / 3\<close> or \<open>k / 4\<close>
  with \<open>k\<close> a count of matching patterns, and the only comparisons are with \<open>0\<close> and with
  the literal \<open>0.3\<close>; on these values the floating-point comparisons agree with the
  exact ones (the float nearest \<open>1/3\<close> is above the float nearest \<open>0.3\<close>, and \<open>0.25\<close> is
  below it), so the scores are modelled as rationals and \<open>0.3\<close> as \<open>3/10\<close>. The mean
  taken in the last branch of \<open>detect_tone\<close> is a mean of values \<open>0.25\<close> and is computed
  without rounding. Dividing by the length of an empty pattern list raises
  \<open>ZeroDivisionError\<close>.
\<close>

definition check_patterns :: "(nat \<Rightarrow> bool) \<Rightarrow> pystr \<Rightarrow> pattern list \<Rightarrow> error + rat" where
  "check_patterns U t patterns =
     (let matches = sum_list (map (\<lambda>p. if re_search U p t then (1::nat) else 0) patterns)
      in if length patterns = 0 then Inl (ZeroDivisionError (str ''division by zero''))
         else Inr (min (of_nat matches / of_nat (length patterns)) 1))"

definition analyze_message :: "(nat \<Rightarrow> bool) \<Rightarrow> pystr \<Rightarrow> error + (string \<times> rat) list" where
  "analyze_message U message =
     and_then (check_patterns U message urgency_patterns) (\<lambda>u.
     and_then (check_patterns U message complaint_patterns) (\<lambda>c.
     and_then (check_patterns U message formal_patterns) (\<lambda>f.
     and_then (check_patterns U message positive_patterns) (\<lambda>p.
       Inr [(''urgency'', u), (''complaint'', c), (''formality'', f), (''positivity'', p)]))))"

section \<open>Dictionaries and dynamically typed values\<close>

text \<open>
  \<open>detect_tone\<close> takes its context as a plain \<open>Dict\<close>. The values this program puts
  into such a dictionary are \<open>None\<close>, strings and integers. A dictionary is an
  association list in insertion order with distinct keys; \<open>dict_get\<close> is \<open>d.get(k)\<close>
  and \<open>dict_item\<close> is \<open>d[k]\<close>.
\<close>

datatype pyval = PNone | PStr pystr | PInt int

type_synonym pydict = "(string \<times> pyval) list"

definition dict_get :: "pydict \<Rightarrow> string \<Rightarrow> pyval" where
  "dict_get d k = (case map_of d k of None \<Rightarrow> PNone | Some v \<Rightarrow> v)"

definition dict_item :: "(string \<times> 'a) list \<Rightarrow> string \<Rightarrow> error + 'a" where
  "dict_item d k = (case map_of d k of None \<Rightarrow> Inl (KeyError (quoted (str k))) | Some v \<Rightarrow> Inr v)"

fun truthy :: "pyval \<Rightarrow> bool" where
  "truthy PNone = False"
| "truthy (PStr s) = (s \<noteq> [])"
| "truthy (PInt n) = (n \<noteq> 0)"

text \<open>
  \<open>str.lower\<close>. ASCII capitals go to their small letters. Of all other code points only
  two have a lower-case form that contains an ASCII character: U+0130 becomes \<open>i\<close>
  followed by U+0307, and U+212A becomes \<open>k\<close>. Every other non-ASCII code point is left
  in place here, where Python may replace it by other non-ASCII code points; the program
  only compares the lowered string with the ASCII word \<open>critical\<close>, and that comparison
  is the same either way. Calling \<open>.lower()\<close> on a value that is not a string raises
  \<open>AttributeError\<close>.
\<close>

definition lower_char :: "nat \<Rightarrow> pystr" where
  "lower_char c =
     (if 65 \<le> c \<and> c \<le> 90 then [c + 32]
      else if c = 0x130 then [0x69, 0x307]
      else if c = 0x212A then [0x6B]
      else [c])"

definition py_lower :: "pystr \<Rightarrow> pystr" where
  "py_lower s = concat (map lower_char s)"

fun lower_method :: "pyval \<Rightarrow> error + pystr" where
  "lower_method (PStr s) = Inr (py_lower s)"
| "lower_method PNone =
     Inl (AttributeError (quoted (str ''NoneType'') @ str '' object has no attribute '' @ quoted (str ''lower'')))"
| "lower_method (PInt n) =
     Inl (AttributeError (quoted (str ''int'') @ str '' object has no attribute '' @ quoted (str ''lower'')))"

section \<open>\<open>ToneDetector.detect_tone\<close>\<close>

text \<open>
  The second component of the result is the metadata dictionary with the keys
  \<open>detected_tone\<close>, \<open>confidence\<close> and \<open>factors\<close>; \<open>schemas.py\<close> reads it as a
  \<open>ToneDetectionMetadata\<close>. The two log calls of \<open>detect_tone\<close> have no effect on its
  result and are left out.
\<close>

record ToneDetectionMetadata =
  detected_tone :: string
  confidence :: rat
  factors :: "(string \<times> rat) list"

definition detect_tone ::
  "(nat \<Rightarrow> bool) \<Rightarrow> pystr \<Rightarrow> pydict option \<Rightarrow> error + (string \<times> ToneDetectionMetadata)" where
  "detect_tone U message ctx =
     and_then (analyze_message U message) (\<lambda>scores.
     and_then
       (case ctx of
          None \<Rightarrow> Inr (str ''normal'')
        | Some d \<Rightarrow>
            if d \<noteq> [] \<and> truthy (dict_get d ''priority'')
            then lower_method (dict_get d ''priority'')
            else Inr (str ''normal'')) (\<lambda>prio.
     and_then (dict_item scores ''urgency'') (\<lambda>urgency.
     and_then
       (if urgency > 3 / 10 \<or> prio = str ''critical'' then Inr (''direct'', urgency)
        else and_then (dict_item scores ''complaint'') (\<lambda>complaint.
          if complaint > 3 / 10 then Inr (''empathetic'', complaint)
          else and_then (dict_item scores ''formality'') (\<lambda>formality.
            if formality > 3 / 10 then Inr (''formal'', formality)
            else and_then (dict_item scores ''positivity'') (\<lambda>positivity.
              if positivity > 3 / 10 then Inr (''friendly'', positivity)
              else
                (let non_zero_scores = filter (\<lambda>s. s > 0) (map snd scores)
                 in Inr (''professional'',
                      if non_zero_scores \<noteq> []
                      then sum_list non_zero_scores / of_nat (length non_zero_scores)
                      else 1 / 2))))))
       (\<lambda>(t, c). Inr (t, \<lparr>detected_tone = t, confidence = c, factors = scores\<rparr>)))))"

section \<open>\<open>schemas.py\<close>: the data model\<close>

datatype ToneType = PROFESSIONAL | FRIENDLY | FORMAL | EMPATHETIC | DIRECT

fun tone_value :: "ToneType \<Rightarrow> string" where
  "tone_value PROFESSIONAL = ''professional''"
| "tone_value FRIENDLY = ''friendly''"
| "tone_value FORMAL = ''formal''"
| "tone_value EMPATHETIC = ''empathetic''"
| "tone_value DIRECT = ''direct''"

definition ToneType_members :: "ToneType list" where
  "ToneType_members = [PROFESSIONAL, FRIENDLY, FORMAL, EMPATHETIC, DIRECT]"

text \<open>\<open>ToneType(v)\<close> looks a member up by its value and raises \<open>ValueError\<close> when there is none.\<close>

definition ToneType_of :: "string \<Rightarrow> error + ToneType" where
  "ToneType_of v =
     (case find (\<lambda>t. tone_value t = v) ToneType_members of
        None \<Rightarrow> Inl (ValueError (quoted (str v) @ str '' is not a valid ToneType''))
      | Some t \<Rightarrow> Inr t)"

record EmailContext =
  customer_name :: "pystr option"
  customer_history :: "pystr option"
  account_type :: "pystr option"
  previous_interactions :: "int option"
  priority :: "pystr option"
  department :: "pystr option"
  additional_notes :: "pystr option"

text \<open>
  The field \<open>context\<close> of \<open>EmailRequest\<close> is written \<open>context'\<close>, since \<open>context\<close> is a
  reserved word of Isabelle.
\<close>

record EmailRequest =
  customer_message :: pystr
  context' :: "EmailContext option"
  tone :: "ToneType option"
  max_length :: "int option"

record EmailResponseMetadata =
  tone_used :: string
  context_length :: nat
  generation_settings :: "(string \<times> rat) list"
  tone_detection :: "ToneDetectionMetadata option"
  timestamp :: rat

record EmailResponse =
  message :: pystr
  status_code :: int
  execution_time_ms :: rat
  metadata :: EmailResponseMetadata

text \<open>
  \<open>EmailContext.dict()\<close> lists every field in declaration order, an unset field with the
  value \<open>None\<close>; \<open>dict(exclude_none=True)\<close> leaves those out.
\<close>

fun opt_str :: "pystr option \<Rightarrow> pyval" where
  "opt_str None = PNone"
| "opt_str (Some s) = PStr s"

fun opt_int :: "int option \<Rightarrow> pyval" where
  "opt_int None = PNone"
| "opt_int (Some n) = PInt n"

definition context_dict :: "EmailContext \<Rightarrow> pydict" where
  "context_dict c =
     [(''customer_name'', opt_str (customer_name c)),
      (''customer_history'', opt_str (customer_history c)),
      (''account_type'', opt_str (account_type c)),
      (''previous_interactions'', opt_int (previous_interactions c)),
      (''priority'', opt_str (priority c)),
      (''department'', opt_str (department c)),
      (''additional_notes'', opt_str (additional_notes c))]"

definition exclude_none :: "pydict \<Rightarrow> pydict" where
  "exclude_none d = filter (\<lambda>kv. snd kv \<noteq> PNone) d"

text \<open>
  Building an \<open>EmailResponseMetadata\<close> validates the detection dictionary against
  \<open>ToneDetectionMetadata\<close>, whose \<open>confidence\<close> field is declared with \<open>ge=0.0, le=1.0\<close>.
\<close>

definition validate_detection :: "ToneDetectionMetadata option \<Rightarrow> error + ToneDetectionMetadata option" where
  "validate_detection d =
     (case d of
        None \<Rightarrow> Inr None
      | Some m \<Rightarrow>
          if 0 \<le> confidence m \<and> confidence m \<le> 1 then Inr (Some m)
          else Inl (ValidationError (str ''tone_detection.confidence'')))"

section \<open>\<open>config.py\<close> and the environment of a request\<close>

record Settings =
  TEMPERATURE :: rat
  MAX_TOKENS :: int
  TOP_P :: rat
  TOP_K :: int

text \<open>
  What a request reads from outside the program: the settings, the language model
  (\<open>llm.agenerate\<close> on one prompt, giving the text of the first generation or raising),
  the two readings of \<open>time.time()\<close> and the \<open>datetime.utcnow()\<close> of the metadata's
  timestamp, both in seconds.
\<close>

record env =
  settings :: Settings
  llm :: "pystr \<Rightarrow> error + pystr"
  time_start :: rat
  time_end :: rat
  utcnow :: rat

datatype level = DEBUG | INFO | WARNING | ERROR

type_synonym log_record = "level \<times> pystr"

section \<open>\<open>LangChainService\<close>: strings\<close>

text \<open>\<open>str(n)\<close> for an integer: its decimal digits, with a minus sign when negative.\<close>

fun str_nat :: "nat \<Rightarrow> pystr" where
  "str_nat n = (if n < 10 then [48 + n] else str_nat (n div 10) @ [48 + n mod 10])"

declare str_nat.simps [simp del]

definition str_int :: "int \<Rightarrow> pystr" where
  "str_int i = (if i < 0 then 45 # str_nat (nat (- i)) else str_nat (nat i))"

text \<open>What an f-string writes for a value.\<close>

fun format_value :: "pyval \<Rightarrow> pystr" where
  "format_value PNone = str ''None''"
| "format_value (PStr s) = s"
| "format_value (PInt n) = str_int n"

text \<open>
  \<open>key.replace('_', ' ').title()\<close> on the field names, which are ASCII: \<open>title\<close> writes a
  letter as a capital when the character before it is not a letter and as a small letter
  otherwise.
\<close>

definition replace_char :: "char \<Rightarrow> char \<Rightarrow> string \<Rightarrow> string" where
  "replace_char old new s = map (\<lambda>c. if c = old then new else c) s"

definition is_upper :: "char \<Rightarrow> bool" where
  "is_upper c = (65 \<le> (of_char c :: nat) \<and> (of_char c :: nat) \<le> 90)"

definition is_lower :: "char \<Rightarrow> bool" where
  "is_lower c = (97 \<le> (of_char c :: nat) \<and> (of_char c :: nat) \<le> 122)"

fun title_from :: "bool \<Rightarrow> string \<Rightarrow> string" where
  "title_from prev [] = []"
| "title_from prev (c # cs) =
     (if is_lower c then (if prev then c else char_of (of_char c - (32::nat))) # title_from True cs
      else if is_upper c then (if prev then char_of (of_char c + (32::nat)) else c) # title_from True cs
      else c # title_from False cs)"

definition title :: "string \<Rightarrow> string" where
  "title s = title_from False s"

section \<open>\<open>LangChainService\<close>: guidelines, context block and prompt template\<close>

definition TONE_GUIDELINES :: "(ToneType \<times> pystr) list" where
  "TONE_GUIDELINES =
     [(PROFESSIONAL, str ''Use a professional and polished tone. Be clear, concise, and business-appropriate.''),
      (FRIENDLY, str ''Use a warm and approachable tone. Be personable while maintaining professionalism.''),
      (FORMAL, str ''Use a formal and traditional tone. Be respectful and maintain appropriate distance.''),
      (EMPATHETIC, str ''Use an understanding and supportive tone. Show compassion and acknowledge feelings.''),
      (DIRECT, str ''Use a clear and straightforward tone. Be concise and get to the point quickly.'')]"

definition guideline :: "ToneType \<Rightarrow> error + pystr" where
  "guideline t =
     (case map_of TONE_GUIDELINES t of
        None \<Rightarrow> Inl (KeyError (str (tone_value t)))
      | Some g \<Rightarrow> Inr g)"

definition format_context :: "EmailContext option \<Rightarrow> pystr" where
  "format_context c =
     (case c of
        None \<Rightarrow> str ''No additional context provided.''
      | Some ec \<Rightarrow>
          foldl (\<lambda>context_str kv.
                   context_str @ str ''- '' @ str (title (replace_char CHR ''_'' CHR '' '' (fst kv)))
                     @ str '': '' @ format_value (snd kv) @ [10])
                (str ''Customer Information:'' @ [10])
                (exclude_none (context_dict ec)))"

text \<open>
  The email template is one string literal with four replacement fields and no other
  brace. It is written here as the five pieces of literal text between the fields;
  \<open>[10]\<close> is the newline and \<open>[34]\<close> the double quote.
\<close>

definition template_rules :: pystr where
  "template_rules =
     str ''System: You are a customer support agent responding to customer inquiries. You must follow these rules strictly:'' @ [10] @
     str ''1. Respond AS A SUPPORT AGENT addressing the customer's concerns'' @ [10] @
     str ''2. Output ONLY the email response'' @ [10] @
     str ''3. Do not include any explanations or thinking process'' @ [10] @
     str ''4. Do not use XML-like tags'' @ [10] @
     str ''5. Start with '' @ [34] @ str ''Dear [Customer's Name],'' @ [34] @ [10] @
     str ''6. End with an appropriate signature'' @ [10] @
     str ''7. Stay within character limits'' @ [10] @
     str ''8. Maintain the specified tone'' @ [10] @
     [10] @
     str ''SUPPORT AGENT GUIDELINES:'' @ [10] @
     str ''- Immediately acknowledge the urgency/priority of the issue'' @ [10] @
     str ''- Provide SPECIFIC, ACTIONABLE steps the customer can take'' @ [10] @
     str ''- If it's a known issue, provide the current status and ETA'' @ [10] @
     str ''- Include CONCRETE next steps (e.g., specific phone numbers, links, or procedures)'' @ [10] @
     str ''- For urgent issues, provide immediate workarounds if available'' @ [10] @
     str ''- Include your direct contact information and availability'' @ [10] @
     str ''- Specify when the customer can expect updates or resolution'' @ [10] @
     str ''- Sign off with your department name and case reference number'' @ [10] @
     [10] @
     str ''RESPONSE STRUCTURE:'' @ [10] @
     str ''1. Acknowledgment of the specific issue'' @ [10] @
     str ''2. Immediate action items or workarounds'' @ [10] @
     str ''3. Next steps and timeline'' @ [10] @
     str ''4. Your contact information and availability'' @ [10] @
     str ''5. Case reference or ticket number'' @ [10] @
     [10] @
     str ''CONTEXT INFORMATION:'' @ [10]"

definition template_tone :: pystr where
  "template_tone =
     [10] @
     [10] @
     str ''TONE GUIDELINES:'' @ [10]"

definition template_message :: pystr where
  "template_message =
     [10] @
     [10] @
     str ''CUSTOMER MESSAGE:'' @ [10]"

definition template_requirements :: pystr where
  "template_requirements =
     [10] @
     [10] @
     str ''REQUIREMENTS:'' @ [10] @
     str ''1. Provide SPECIFIC, ACTIONABLE solutions'' @ [10] @
     str ''2. Maintain the specified tone'' @ [10] @
     str ''3. Be clear and well-structured'' @ [10] @
     str ''4. Stay within ''"

definition template_end :: pystr where
  "template_end =
     str '' characters'' @ [10] @
     str ''5. Include concrete next steps'' @ [10] @
     str ''6. Reference relevant documentation'' @ [10] @
     str ''7. Provide timeline expectations'' @ [10] @
     str ''8. Include case/ticket reference'' @ [10] @
     [10] @
     str ''Generate the support agent's email response below:''"

datatype piece = Literal pystr | Field string

definition email_template :: "piece list" where
  "email_template =
     [Literal template_rules, Field ''context'',
      Literal template_tone, Field ''tone_guidelines'',
      Literal template_message, Field ''customer_message'',
      Literal template_requirements, Field ''max_length'',
      Literal template_end]"

text \<open>\<open>str.format\<close> with keyword arguments; a field without an argument raises \<open>KeyError\<close>.\<close>

fun format_template :: "piece list \<Rightarrow> (string \<times> pystr) list \<Rightarrow> error + pystr" where
  "format_template [] args = Inr []"
| "format_template (Literal s # ps) args =
     and_then (format_template ps args) (\<lambda>r. Inr (s @ r))"
| "format_template (Field k # ps) args =
     and_then (dict_item args k) (\<lambda>v.
     and_then (format_template ps args) (\<lambda>r. Inr (v @ r)))"

section \<open>\<open>LangChainService\<close>: cleaning the generated text\<close>

text \<open>
  \<open>str.strip()\<close> removes the characters for which \<open>str.isspace\<close> holds from both ends.
  There are twenty-nine of them.
\<close>

definition is_space :: "nat \<Rightarrow> bool" where
  "is_space c =
     ((9 \<le> c \<and> c \<le> 13) \<or> (28 \<le> c \<and> c \<le> 32) \<or> c = 0x85 \<or> c = 0xA0 \<or> c = 0x1680
      \<or> (0x2000 \<le> c \<and> c \<le> 0x200A) \<or> c = 0x2028 \<or> c = 0x2029 \<or> c = 0x202F
      \<or> c = 0x205F \<or> c = 0x3000)"

definition py_strip :: "pystr \<Rightarrow> pystr" where
  "py_strip s = rev (dropWhile is_space (rev (dropWhile is_space s)))"

fun startswith :: "pystr \<Rightarrow> pystr \<Rightarrow> bool" where
  "startswith s [] = True"
| "startswith [] (p # ps) = False"
| "startswith (c # cs) (p # ps) = (c = p \<and> startswith cs ps)"

text \<open>\<open>contains sub s\<close> is Python's \<open>sub in s\<close>.\<close>

fun contains :: "pystr \<Rightarrow> pystr \<Rightarrow> bool" where
  "contains sub [] = startswith [] sub"
| "contains sub (c # cs) = (startswith (c # cs) sub \<or> contains sub cs)"

text \<open>
  \<open>s.split(sep)\<close> scans from the left and cuts at every occurrence of \<open>sep\<close> that does
  not overlap the one before; \<open>cur\<close> is the piece being collected. An empty separator
  raises \<open>ValueError\<close>. \<open>last_item\<close> is the subscript \<open>[-1]\<close>.
\<close>

fun split_from :: "pystr \<Rightarrow> pystr \<Rightarrow> pystr \<Rightarrow> pystr list" where
  "split_from sep cur [] = [cur]"
| "split_from sep cur (c # cs) =
     (if sep \<noteq> [] \<and> startswith (c # cs) sep
      then cur # split_from sep [] (drop (length sep) (c # cs))
      else split_from sep (cur @ [c]) cs)"

definition py_split :: "pystr \<Rightarrow> pystr \<Rightarrow> error + pystr list" where
  "py_split sep s =
     (if sep = [] then Inl (ValueError (str ''empty separator'')) else Inr (split_from sep [] s))"

definition last_item :: "'a list \<Rightarrow> error + 'a" where
  "last_item xs =
     (case rev xs of
        [] \<Rightarrow> Inl (IndexError (str ''list index out of range''))
      | x # _ \<Rightarrow> Inr x)"

text \<open>
  The post-processing of \<open>generate_email_response\<close>: the generated text is stripped, and
  when it contains \<open><think>\<close> the last piece of its split at \<open></think>\<close> is kept, stripped.
\<close>

definition clean_message :: "pystr \<Rightarrow> error + pystr" where
  "clean_message generated =
     (let msg = py_strip generated
      in if contains (str ''<think>'') msg
         then and_then (py_split (str ''</think>'') msg) (\<lambda>parts.
              and_then (last_item parts) (\<lambda>l. Inr (py_strip l)))
         else Inr msg)"

section \<open>\<open>LangChainService.generate_email_response\<close>\<close>

text \<open>
  The body of the function is modelled block by block, in the order of the source.
  \<open>resolve_tone\<close> is the block that initialises the tone variables and detects the tone
  when the request has none. It gives the tone, the detection metadata and the log
  record written.
\<close>

definition resolve_tone ::
  "(nat \<Rightarrow> bool) \<Rightarrow> EmailRequest \<Rightarrow>
     error + (string \<times> ToneDetectionMetadata option \<times> log_record list)" where
  "resolve_tone U request =
     (case tone request of
        Some t \<Rightarrow> Inr (tone_value t, None, [])
      | None \<Rightarrow>
          (let cd = (case context' request of Some c \<Rightarrow> context_dict c | None \<Rightarrow> [])
           in and_then (detect_tone U (customer_message request) (Some cd))
                (\<lambda>(detected_tone, detection_metadata).
                   Inr (detected_tone, Some detection_metadata,
                        [(INFO, str ''Auto-detected tone: '' @ str detected_tone)]))))"

text \<open>
  The block that makes sure the tone is valid: \<open>ToneType(tone)\<close> and the lookup of its
  guideline, with the handler for \<open>ValueError\<close> and \<open>KeyError\<close> that falls back to
  \<open>PROFESSIONAL\<close> and logs a warning.
\<close>

fun caught :: "error \<Rightarrow> bool" where
  "caught (ValueError m) = True"
| "caught (KeyError m) = True"
| "caught e = False"

definition ensure_valid_tone ::
  "string \<Rightarrow> error + (ToneType \<times> string \<times> pystr \<times> log_record list)" where
  "ensure_valid_tone t =
     (case and_then (ToneType_of t) (\<lambda>tone_type.
           and_then (guideline tone_type) (\<lambda>g. Inr (tone_type, g))) of
        Inr (tone_type, g) \<Rightarrow> Inr (tone_type, t, g, [])
      | Inl e \<Rightarrow>
          if caught e
          then and_then (guideline PROFESSIONAL) (\<lambda>g.
                 Inr (PROFESSIONAL, tone_value PROFESSIONAL, g,
                      [(WARNING, str ''Invalid tone '' @ quoted (str t)
                                   @ str '', falling back to professional'')]))
          else Inl e)"

text \<open>The block that formats the prompt; \<open>request.max_length or 2048\<close> is the last argument.\<close>

definition build_prompt :: "EmailRequest \<Rightarrow> pystr \<Rightarrow> error + pystr" where
  "build_prompt request tone_guidelines =
     (let context_str = format_context (context' request)
      in format_template email_template
           [(''context'', context_str),
            (''tone_guidelines'', tone_guidelines),
            (''customer_message'', customer_message request),
            (''max_length'',
               str_int (case max_length request of
                          None \<Rightarrow> 2048
                        | Some n \<Rightarrow> if n = 0 then 2048 else n))])"

text \<open>
  \<open>respond_with_tone\<close> is the function from the validation of the tone to the return:
  validation, prompt, generation, cleaning, metadata. It is given the tone and the
  detection metadata that the first block produced.
\<close>

definition respond_with_tone ::
  "env \<Rightarrow> EmailRequest \<Rightarrow> string \<Rightarrow> ToneDetectionMetadata option \<Rightarrow>
     log_record list \<times> (error + EmailResponse)" where
  "respond_with_tone e request t tone_detection_metadata =
     (case ensure_valid_tone t of
        Inl x \<Rightarrow> ([], Inl x)
      | Inr (tone_type, tone1, tone_guidelines, log1) \<Rightarrow>
          (case build_prompt request tone_guidelines of
             Inl x \<Rightarrow> (log1, Inl x)
           | Inr prompt \<Rightarrow>
               (let log2 = log1 @ [(DEBUG, str ''Generating email response with tone: '' @ str tone1)]
                in case and_then (llm e prompt) clean_message of
                     Inl x \<Rightarrow> (log2, Inl x)
                   | Inr msg \<Rightarrow>
                       (let execution_time = (time_end e - time_start e) * 1000
                        in case validate_detection tone_detection_metadata of
                             Inl x \<Rightarrow> (log2, Inl x)
                           | Inr det \<Rightarrow>
                               (log2,
                                Inr \<lparr>message = msg, status_code = 200,
                                     execution_time_ms = execution_time,
                                     metadata =
                                       \<lparr>tone_used = tone1,
                                        context_length = length prompt,
                                        generation_settings =
                                          [(''temperature'', TEMPERATURE (settings e)),
                                           (''max_tokens'', of_int (MAX_TOKENS (settings e))),
                                           (''top_p'', TOP_P (settings e)),
                                           (''top_k'', of_int (TOP_K (settings e)))],
                                        tone_detection = det,
                                        timestamp = utcnow e\<rparr>\<rparr>)))))"

text \<open>The whole function: any exception is logged as an error and raised again.\<close>

definition error_record :: "error \<Rightarrow> log_record" where
  "error_record x = (ERROR, str ''Error generating email response: '' @ error_str x)"

definition generate_email_response ::
  "(nat \<Rightarrow> bool) \<Rightarrow> env \<Rightarrow> EmailRequest \<Rightarrow> log_record list \<times> (error + EmailResponse)" where
  "generate_email_response U e request =
     (case resolve_tone U request of
        Inl x \<Rightarrow> ([error_record x], Inl x)
      | Inr (t, det, log0) \<Rightarrow>
          (case respond_with_tone e request t det of
             (lg, Inl x) \<Rightarrow> (log0 @ lg @ [error_record x], Inl x)
           | (lg, Inr r) \<Rightarrow> (log0 @ lg, Inr r)))"

section \<open>\<open>AIAgent.generate_email_response\<close> and the endpoint\<close>

text \<open>
  The agent keeps a dictionary \<open>self.context\<close>; the function stores the message, then
  \<open>request.tone.value\<close>, then a timestamp, and calls the service. Reading \<open>.value\<close> of a
  tone that is \<open>None\<close> raises \<open>AttributeError\<close>; the message has been stored by then.
  The agent's own debug records are left out. \<open>now_iso\<close> is the text of
  \<open>datetime.utcnow().isoformat()\<close>.
\<close>

definition AIAgent_generate_email_response ::
  "(nat \<Rightarrow> bool) \<Rightarrow> env \<Rightarrow> pystr \<Rightarrow> (string \<rightharpoonup> pystr) \<Rightarrow> EmailRequest \<Rightarrow>
     (string \<rightharpoonup> pystr) \<times> log_record list \<times> (error + EmailResponse)" where
  "AIAgent_generate_email_response U e now_iso ctx request =
     (let c1 = ctx(''last_email'' \<mapsto> customer_message request)
      in case tone request of
           None \<Rightarrow>
             (c1, [],
              Inl (AttributeError (quoted (str ''NoneType'') @ str '' object has no attribute ''
                                   @ quoted (str ''value''))))
         | Some t \<Rightarrow>
             (let c3 = c1(''last_tone'' \<mapsto> str (tone_value t), ''last_timestamp'' \<mapsto> now_iso)
              in case generate_email_response U e request of (lg, r) \<Rightarrow> (c3, lg, r)))"

text \<open>
  The endpoint \<open>/email/respond\<close>: a failed health check answers 503, any other exception
  of the agent answers 500 with the exception's text as details.
\<close>

datatype http_result = Ok200 EmailResponse | HttpError int pystr pystr

definition health_check :: "env \<Rightarrow> bool" where
  "health_check e = (case llm e (str ''Hi'') of Inl x \<Rightarrow> False | Inr t \<Rightarrow> py_strip t \<noteq> [])"

definition endpoint_generate_email_response ::
  "(nat \<Rightarrow> bool) \<Rightarrow> env \<Rightarrow> pystr \<Rightarrow> (string \<rightharpoonup> pystr) \<Rightarrow> EmailRequest \<Rightarrow>
     (string \<rightharpoonup> pystr) \<times> http_result" where
  "endpoint_generate_email_response U e now_iso ctx request =
     (if \<not> health_check e
      then (ctx, HttpError 503 (str ''AI service is currently unavailable'')
                   (str ''Service is not responding''))
      else case AIAgent_generate_email_response U e now_iso ctx request of
             (c, lg, Inl x) \<Rightarrow> (c, HttpError 500 (str ''Internal server error'') (error_str x))
           | (c, lg, Inr r) \<Rightarrow> (c, Ok200 r))"

section \<open>Reference definitions\<close>

text \<open>
  The definitions of this section are not taken from the source. They state, in the
  words of the specification, what the functions above are compared with, and they name
  the values that the examples use.
\<close>

subsection \<open>The tone detector\<close>

text \<open>
  \<open>ascii_table\<close> is the Unicode table with no alphanumeric character beyond ASCII, used
  to evaluate the detector on ASCII messages. \<open>axis_score\<close> is the number of patterns of
  a list that match the message, divided by the number of patterns and capped at 1.
  \<open>critical_priority\<close> says that the context has a priority field whose lower-case form
  is \<open>critical\<close>. \<open>spec_tone_rules\<close> are the ordered decision rules. \<open>no_int_priority\<close>
  excludes the one kind of context on which \<open>detect_tone\<close> raises: a priority that is a
  non-zero integer, which has no \<open>lower\<close>.
\<close>

definition ascii_table :: "nat \<Rightarrow> bool" where
  "ascii_table c = False"

definition axis_score :: "(nat \<Rightarrow> bool) \<Rightarrow> pystr \<Rightarrow> pattern list \<Rightarrow> rat" where
  "axis_score U msg ps =
     min (of_nat (length (filter (\<lambda>p. re_search U p msg) ps)) / of_nat (length ps)) 1"

definition critical_priority :: "pydict option \<Rightarrow> bool" where
  "critical_priority ctx =
     (case ctx of
        None \<Rightarrow> False
      | Some d \<Rightarrow>
          (case dict_get d ''priority'' of
             PStr s \<Rightarrow> py_lower s = str ''critical''
           | PNone \<Rightarrow> False
           | PInt n \<Rightarrow> False))"

definition spec_tone_rules :: "rat \<Rightarrow> rat \<Rightarrow> rat \<Rightarrow> rat \<Rightarrow> bool \<Rightarrow> string \<times> rat" where
  "spec_tone_rules u c f p critical =
     (if u > 3 / 10 \<or> critical then (''direct'', u)
      else if c > 3 / 10 then (''empathetic'', c)
      else if f > 3 / 10 then (''formal'', f)
      else if p > 3 / 10 then (''friendly'', p)
      else (''professional'',
            if u = 0 \<and> c = 0 \<and> f = 0 \<and> p = 0 then 1 / 2
            else sum_list (filter (\<lambda>s. 0 < s) [u, c, f, p])
                   / of_nat (length (filter (\<lambda>s. 0 < s) [u, c, f, p]))))"

definition no_int_priority :: "pydict option \<Rightarrow> bool" where
  "no_int_priority ctx =
     (case ctx of
        None \<Rightarrow> True
      | Some d \<Rightarrow>
          (case dict_get d ''priority'' of
             PInt n \<Rightarrow> n = 0
           | PStr s \<Rightarrow> True
           | PNone \<Rightarrow> True))"

text \<open>
  \<open>urgency_keywords\<close> and \<open>urgency_words\<close> are the alternatives of the second and of the
  first urgency pattern; \<open>char_before pre\<close> is the last character of the text \<open>pre\<close>
  before a position.
\<close>

definition urgency_keywords :: "pystr list" where
  "urgency_keywords =
     map str [''urgent'', ''emergency'', ''asap'', ''right away'', ''immediately'', ''right now'']"

definition urgency_words :: "pystr list" where
  "urgency_words = map str [''URGENT'', ''ASAP'', ''EMERGENCY'', ''CRITICAL'', ''IMMEDIATE'']"

definition char_before :: "pystr \<Rightarrow> nat option" where
  "char_before pre = (if pre = [] then None else Some (last pre))"

subsection \<open>The cleaning of the generated text\<close>

text \<open>
  \<open>spec_clean_message\<close>: after stripping, when the text holds a start marker and, after
  it, an end marker, everything up to and including that end marker is discarded and the
  remainder is stripped; \<open>after_first marker s\<close> is the text after the first occurrence
  of the marker in \<open>s\<close>.
\<close>

fun after_first :: "pystr \<Rightarrow> pystr \<Rightarrow> pystr option" where
  "after_first marker [] = (if marker = [] then Some [] else None)"
| "after_first marker (c # cs) =
     (if startswith (c # cs) marker then Some (drop (length marker) (c # cs))
      else after_first marker cs)"

definition spec_clean_message :: "pystr \<Rightarrow> pystr" where
  "spec_clean_message generated =
     (let msg = py_strip generated
      in case after_first (str ''<think>'') msg of
           None \<Rightarrow> msg
         | Some body \<Rightarrow>
             (case after_first (str ''</think>'') body of
                None \<Rightarrow> msg
              | Some rest \<Rightarrow> py_strip rest))"

subsection \<open>The response\<close>

text \<open>
  \<open>prompt_text request g\<close> is the assembled prompt for a request and a guideline text:
  the template with its four fields filled in. \<open>make_response\<close> is the response built
  from the tone, the prompt, the cleaned message and the detection metadata;
  \<open>debug_record\<close> and \<open>warning_record\<close> are the two log records of the function.
\<close>

definition prompt_text :: "EmailRequest \<Rightarrow> pystr \<Rightarrow> pystr" where
  "prompt_text request tone_guidelines =
     template_rules @ format_context (context' request)
       @ template_tone @ tone_guidelines
       @ template_message @ customer_message request
       @ template_requirements
       @ str_int (case max_length request of None \<Rightarrow> 2048 | Some n \<Rightarrow> if n = 0 then 2048 else n)
       @ template_end"

definition make_response ::
  "env \<Rightarrow> string \<Rightarrow> pystr \<Rightarrow> pystr \<Rightarrow> ToneDetectionMetadata option \<Rightarrow> EmailResponse" where
  "make_response e t prompt msg det =
     \<lparr>message = msg, status_code = 200,
      execution_time_ms = (time_end e - time_start e) * 1000,
      metadata =
        \<lparr>tone_used = t,
         context_length = length prompt,
         generation_settings =
           [(''temperature'', TEMPERATURE (settings e)),
            (''max_tokens'', of_int (MAX_TOKENS (settings e))),
            (''top_p'', TOP_P (settings e)),
            (''top_k'', of_int (TOP_K (settings e)))],
         tone_detection = det,
         timestamp = utcnow e\<rparr>\<rparr>"

definition debug_record :: "string \<Rightarrow> log_record" where
  "debug_record t = (DEBUG, str ''Generating email response with tone: '' @ str t)"

definition warning_record :: "string \<Rightarrow> log_record" where
  "warning_record t =
     (WARNING, str ''Invalid tone '' @ quoted (str t) @ str '', falling back to professional'')"

subsection \<open>An example request\<close>

text \<open>
  The settings are the defaults of \<open>config.py\<close>; the language model of the example
  answers every prompt with the same text.
\<close>

definition default_settings :: Settings where
  "default_settings = \<lparr>TEMPERATURE = 3 / 10, MAX_TOKENS = 4096, TOP_P = 9 / 10, TOP_K = 40\<rparr>"

definition example_env :: env where
  "example_env =
     \<lparr>settings = default_settings,
      llm = (\<lambda>prompt. Inr (str ''Dear Ann, we are on it.'')),
      time_start = 0, time_end = 2, utcnow = 0\<rparr>"

definition example_request :: EmailRequest where
  "example_request =
     \<lparr>customer_message = str ''URGENT!! My account is locked, this is unacceptable!!!'',
      context' = None, tone = Some FORMAL, max_length = Some 2048\<rparr>"

section \<open>The tone detector and its reference rules\<close>

lemma sum_list_indicator:
  "sum_list (map (\<lambda>p. if P p then (1::nat) else 0) ps) = length (filter P ps)"
  by (induction ps) simp_all

lemma check_patterns_eq:
  "ps \<noteq> [] \<Longrightarrow> check_patterns U t ps = Inr (axis_score U t ps)"
  by (simp add: check_patterns_def axis_score_def sum_list_indicator)

lemma pattern_list_lengths:
  "length urgency_patterns = 3" "length complaint_patterns = 4"
  "length formal_patterns = 3" "length positive_patterns = 4"
  by (simp_all add: urgency_patterns_def complaint_patterns_def formal_patterns_def
      positive_patterns_def)

lemma analyze_message_eq:
  "analyze_message U msg =
     Inr [(''urgency'', axis_score U msg urgency_patterns),
          (''complaint'', axis_score U msg complaint_patterns),
          (''formality'', axis_score U msg formal_patterns),
          (''positivity'', axis_score U msg positive_patterns)]"
proof -
  have ne: "urgency_patterns \<noteq> []" "complaint_patterns \<noteq> []"
    "formal_patterns \<noteq> []" "positive_patterns \<noteq> []"
    using pattern_list_lengths by auto
  show ?thesis
    by (simp add: analyze_message_def and_then_def check_patterns_eq [OF ne(1)]
        check_patterns_eq [OF ne(2)] check_patterns_eq [OF ne(3)] check_patterns_eq [OF ne(4)])
qed

lemma axis_score_bounds: "0 \<le> axis_score U msg ps" "axis_score U msg ps \<le> 1"
  by (simp_all add: axis_score_def)

lemma axis_score_three:
  assumes "length ps = 3"
  shows "axis_score U msg ps \<in> {0, 1 / 3, 2 / 3, 1}"
proof -
  let ?k = "length (filter (\<lambda>p. re_search U p msg) ps)"
  have "?k \<le> 3" using length_filter_le [of _ ps] assms by (metis)
  then have "?k = 0 \<or> ?k = 1 \<or> ?k = 2 \<or> ?k = 3" by linarith
  then show ?thesis
    unfolding axis_score_def assms by (elim disjE) simp_all
qed

lemma axis_score_four:
  assumes "length ps = 4"
  shows "axis_score U msg ps \<in> {0, 1 / 4, 1 / 2, 3 / 4, 1}"
proof -
  let ?k = "length (filter (\<lambda>p. re_search U p msg) ps)"
  have "?k \<le> 4" using length_filter_le [of _ ps] assms by (metis)
  then have "?k = 0 \<or> ?k = 1 \<or> ?k = 2 \<or> ?k = 3 \<or> ?k = 4" by linarith
  then show ?thesis
    unfolding axis_score_def assms by (elim disjE) simp_all
qed

lemma str_normal_not_critical: "str ''normal'' \<noteq> str ''critical''"
  by (simp add: str_def)

lemma priority_step:
  assumes "no_int_priority ctx"
  shows "\<exists>prio. (case ctx of
          None \<Rightarrow> Inr (str ''normal'')
        | Some d \<Rightarrow>
            if d \<noteq> [] \<and> truthy (dict_get d ''priority'')
            then lower_method (dict_get d ''priority'')
            else Inr (str ''normal'')) = Inr prio \<and> (prio = str ''critical'') = critical_priority ctx"
proof (cases ctx)
  case None
  then show ?thesis by (simp add: critical_priority_def str_normal_not_critical)
next
  case (Some d)
  show ?thesis
  proof (cases "dict_get d ''priority''")
    case PNone
    with Some show ?thesis by (simp add: critical_priority_def str_normal_not_critical)
  next
    case (PStr s)
    have empty: "dict_get [] ''priority'' = PNone" by (simp add: dict_get_def)
    have "py_lower [] \<noteq> str ''critical''" by (simp add: py_lower_def str_def)
    with Some PStr empty show ?thesis
      by (cases "d = []"; cases "s = []") (auto simp: critical_priority_def str_normal_not_critical)
  next
    case (PInt n)
    with Some assms show ?thesis
      by (simp add: critical_priority_def no_int_priority_def str_normal_not_critical)
  qed
qed

lemma positive_filter_empty:
  assumes "0 \<le> u" "0 \<le> c" "0 \<le> f" "0 \<le> p"
  shows "(filter (\<lambda>s. 0 < s) [u, c, f, p] = []) = (u = 0 \<and> c = 0 \<and> f = 0 \<and> p = (0::rat))"
  using assms by auto

lemma detect_tone_eq:
  assumes "no_int_priority ctx"
  shows "detect_tone U msg ctx =
     Inr (let u = axis_score U msg urgency_patterns;
              c = axis_score U msg complaint_patterns;
              f = axis_score U msg formal_patterns;
              p = axis_score U msg positive_patterns;
              r = spec_tone_rules u c f p (critical_priority ctx)
          in (fst r,
              \<lparr>detected_tone = fst r, confidence = snd r,
               factors = [(''urgency'', u), (''complaint'', c), (''formality'', f), (''positivity'', p)]\<rparr>))"
proof -
  obtain prio where prio:
    "(case ctx of
          None \<Rightarrow> Inr (str ''normal'')
        | Some d \<Rightarrow>
            if d \<noteq> [] \<and> truthy (dict_get d ''priority'')
            then lower_method (dict_get d ''priority'')
            else Inr (str ''normal'')) = Inr prio"
    "(prio = str ''critical'') = critical_priority ctx"
    using priority_step [OF assms] by blast
  have empty: "(filter (\<lambda>s. 0 < s) [axis_score U msg urgency_patterns, axis_score U msg complaint_patterns,
       axis_score U msg formal_patterns, axis_score U msg positive_patterns] = [])
     = (axis_score U msg urgency_patterns = 0 \<and> axis_score U msg complaint_patterns = 0 \<and>
        axis_score U msg formal_patterns = 0 \<and> axis_score U msg positive_patterns = 0)"
    by (rule positive_filter_empty) (rule axis_score_bounds)+
  show ?thesis
    unfolding detect_tone_def analyze_message_eq prio(1)
    using prio(2) empty
    by (simp add: and_then_def dict_item_def spec_tone_rules_def Let_def)
qed

lemma detect_tone_int_priority:
  assumes "\<not> no_int_priority ctx"
  shows "\<exists>e. detect_tone U msg ctx = Inl e"
proof -
  from assms obtain d n where d: "ctx = Some d" "dict_get d ''priority'' = PInt n" "n \<noteq> 0"
    by (auto simp: no_int_priority_def split: option.splits pyval.splits)
  have "d \<noteq> []" using d(2) by (auto simp: dict_get_def)
  with d show ?thesis
    unfolding detect_tone_def analyze_message_eq by (simp add: and_then_def)
qed

lemma professional_branch:
  assumes "fst (spec_tone_rules (axis_score U msg urgency_patterns)
                  (axis_score U msg complaint_patterns)
                  (axis_score U msg formal_patterns)
                  (axis_score U msg positive_patterns) crit) = ''professional''"
  shows "axis_score U msg urgency_patterns = 0"
    and "axis_score U msg formal_patterns = 0"
    and "axis_score U msg complaint_patterns = 0 \<or> axis_score U msg complaint_patterns = 1 / 4"
    and "axis_score U msg positive_patterns = 0 \<or> axis_score U msg positive_patterns = 1 / 4"
proof -
  let ?u = "axis_score U msg urgency_patterns" and ?c = "axis_score U msg complaint_patterns"
  let ?f = "axis_score U msg formal_patterns" and ?p = "axis_score U msg positive_patterns"
  from assms have le: "?u \<le> 3 / 10" "?c \<le> 3 / 10" "?f \<le> 3 / 10" "?p \<le> 3 / 10"
    by (auto simp: spec_tone_rules_def split: if_splits)
  from axis_score_three [OF pattern_list_lengths(1), of U msg] le(1) show "?u = 0" by auto
  from axis_score_three [OF pattern_list_lengths(3), of U msg] le(3) show "?f = 0" by auto
  from axis_score_four [OF pattern_list_lengths(2), of U msg] le(2) show "?c = 0 \<or> ?c = 1 / 4" by auto
  from axis_score_four [OF pattern_list_lengths(4), of U msg] le(4) show "?p = 0 \<or> ?p = 1 / 4" by auto
qed

lemma professional_confidence:
  assumes "fst (spec_tone_rules 0 c 0 p crit) = ''professional''"
    and "c = 0 \<or> c = 1 / 4" and "p = 0 \<or> p = 1 / 4"
  shows "snd (spec_tone_rules 0 c 0 p crit) = (if c = 0 \<and> p = 0 then 1 / 2 else 1 / 4)"
  using assms by (auto simp: spec_tone_rules_def split: if_splits)

lemma spec_tone_rules_label:
  "fst (spec_tone_rules u c f p crit) \<in> {''direct'', ''empathetic'', ''formal'', ''friendly'', ''professional''}"
  by (simp add: spec_tone_rules_def)

lemma spec_tone_rules_score:
  assumes "fst (spec_tone_rules u c f p crit) \<noteq> ''professional''"
  shows "snd (spec_tone_rules u c f p crit) \<in> {u, c, f, p}"
  using assms by (auto simp: spec_tone_rules_def split: if_splits)

section \<open>Matching the urgency patterns\<close>

text \<open>Sufficient conditions for each of the three urgency patterns to match.\<close>

lemma positions_append:
  "(if pre = [] then prev else Some (last pre), rest) \<in> set (positions prev (pre @ rest))"
proof (induction pre arbitrary: prev)
  case Nil
  show ?case by (cases rest) simp_all
next
  case (Cons c pre)
  from Cons [of "Some c"] show ?case by (cases pre) auto
qed

lemma re_searchI:
  assumes "rmatch U (fst p) (snd p) (char_before pre, rest) \<noteq> []"
  shows "re_search U p (pre @ rest)"
proof -
  have "(char_before pre, rest) \<in> set (positions None (pre @ rest))"
    using positions_append [of pre None rest] by (simp add: char_before_def)
  with assms show ?thesis
    unfolding re_search_def list_ex_iff by blast
qed

lemma match_lit_exact:
  "match_lit False w (prev, w @ post) = Some (if w = [] then prev else Some (last w), post)"
  by (induction w arbitrary: prev) (simp_all add: char_eq_def)

lemma lower_char_single:
  assumes "lower_char c = [p]"
  shows "char_eq True p c"
proof -
  consider "65 \<le> c \<and> c \<le> 90" | "c = 0x212A" | "\<not> (65 \<le> c \<and> c \<le> 90)" "c \<noteq> 0x130" "c \<noteq> 0x212A"
    using assms by (auto simp: lower_char_def split: if_splits)
  then show ?thesis
  proof cases
    case 1
    with assms have "p = c + 32" by (simp add: lower_char_def)
    with 1 show ?thesis by (simp add: char_eq_def sre_lower_def)
  next
    case 2
    with assms show ?thesis by (simp add: lower_char_def char_eq_def sre_lower_def)
  next
    case 3
    with assms have "p = c" by (simp add: lower_char_def)
    then show ?thesis by (simp add: char_eq_def)
  qed
qed

lemma lower_char_cases:
  "(\<exists>p. lower_char c = [p]) \<or> lower_char c = [0x69, 0x307]"
  by (simp add: lower_char_def)

lemma match_lit_lower:
  assumes "py_lower mid = kw" and "0x307 \<notin> set kw"
  shows "\<exists>s. match_lit True kw (prev, mid @ post) = Some s"
  using assms
proof (induction mid arbitrary: kw prev)
  case Nil
  then show ?case by (simp add: py_lower_def)
next
  case (Cons c mid)
  from Cons.prems have kw: "kw = lower_char c @ py_lower mid" by (simp add: py_lower_def)
  from lower_char_cases [of c] show ?case
  proof
    assume "\<exists>p. lower_char c = [p]"
    then obtain p where p: "lower_char c = [p]" ..
    have rest: "0x307 \<notin> set (py_lower mid)" using Cons.prems(2) kw by simp
    from Cons.IH [OF refl rest, of "Some c"]
    obtain s where "match_lit True (py_lower mid) (Some c, mid @ post) = Some s" ..
    with p kw lower_char_single [OF p] show ?thesis by simp
  next
    assume "lower_char c = [0x69, 0x307]"
    with kw Cons.prems(2) show ?thesis by simp
  qed
qed

lemma rmatch_Lits:
  assumes "w \<in> set ws" and "match_lit ic w s = Some s'"
  shows "s' \<in> set (rmatch U ic (Lits ws) s)"
  using assms by (cases s') (force intro!: bexI [of _ w])

lemma axis_score_one_match:
  assumes "p \<in> set ps" and "re_search U p msg"
  shows "1 / of_nat (length ps) \<le> axis_score U msg ps"
proof -
  have "p \<in> set (filter (\<lambda>p. re_search U p msg) ps)" using assms by simp
  then have "0 < length (filter (\<lambda>p. re_search U p msg) ps)"
    by (rule length_pos_if_in_set)
  then have "1 \<le> length (filter (\<lambda>p. re_search U p msg) ps)" by arith
  then have k: "(1::rat) \<le> of_nat (length (filter (\<lambda>p. re_search U p msg) ps))"
    using of_nat_mono [of 1 "length (filter (\<lambda>p. re_search U p msg) ps)", where 'a = rat] by simp
  have n: "(0::rat) < of_nat (length ps)" using assms(1) by (cases ps) auto
  from k n have "1 / of_nat (length ps)
      \<le> (of_nat (length (filter (\<lambda>p. re_search U p msg) ps)) :: rat) / of_nat (length ps)"
    by (simp add: divide_right_mono)
  moreover have "(1::rat) \<le> of_nat (length ps)"
    using of_nat_mono [of 1 "length ps", where 'a = rat] assms(1) by (cases ps) auto
  then have "1 / of_nat (length ps) \<le> (1::rat)" by (simp add: divide_le_eq)
  ultimately show ?thesis by (simp add: axis_score_def)
qed

lemma urgency_match_direct:
  assumes "p \<in> set urgency_patterns" and "re_search U p msg" and "no_int_priority ctx"
  shows "\<exists>m. detect_tone U msg ctx = Inr (''direct'', m)"
proof -
  from axis_score_one_match [OF assms(1,2)]
  have "3 / 10 < axis_score U msg urgency_patterns"
    by (simp add: pattern_list_lengths)
  then show ?thesis
    using detect_tone_eq [OF assms(3), of U msg] by (simp add: Let_def spec_tone_rules_def)
qed

lemma exclamations_match:
  "re_search U (False, AtLeast 2 (of_char CHR ''!'')) (pre @ str ''!!'' @ post)"
proof (rule re_searchI)
  show "rmatch U (fst (False, AtLeast 2 (of_char CHR ''!''))) (snd (False, AtLeast 2 (of_char CHR ''!'')))
          (char_before pre, str ''!!'' @ post) \<noteq> []"
    by (cases post) (simp_all add: str_def char_eq_def)
qed

lemma keyword_match:
  assumes "py_lower mid \<in> set urgency_keywords"
  shows "re_search U (True, Lits urgency_keywords) (pre @ mid @ post)"
proof (rule re_searchI)
  have "0x307 \<notin> set (py_lower mid)"
    using assms by (auto simp: urgency_keywords_def str_def)
  from match_lit_lower [OF refl this, of "char_before pre" post]
  obtain s where "match_lit True (py_lower mid) (char_before pre, mid @ post) = Some s" ..
  from rmatch_Lits [OF assms this, of U]
  have "rmatch U True (Lits urgency_keywords) (char_before pre, mid @ post) \<noteq> []"
    by (metis empty_iff list.set(1))
  then show "rmatch U (fst (True, Lits urgency_keywords)) (snd (True, Lits urgency_keywords))
          (char_before pre, mid @ post) \<noteq> []"
    by (simp del: rmatch.simps)
qed

lemma urgency_word_ends:
  assumes "kw \<in> set urgency_words"
  shows "kw \<noteq> [] \<and> is_word U (hd kw) \<and> is_word U (last kw)"
  using assms by (auto simp: urgency_words_def str_def is_word_def)

lemma rmatch_Seq_mem:
  assumes "s1 \<in> set (rmatch U ic r1 s)" and "s2 \<in> set (rmatch U ic r2 s1)"
  shows "s2 \<in> set (rmatch U ic (Seq r1 r2) s)"
  unfolding rmatch.simps(4) set_concat set_map using assms by blast

lemma rmatch_WordBoundary_mem:
  assumes "word_before U prev \<noteq> word_after U rest"
  shows "(prev, rest) \<in> set (rmatch U ic WordBoundary (prev, rest))"
  using assms by simp

lemma word_match:
  assumes "kw \<in> set urgency_words"
    and "\<not> word_before U (char_before pre)" and "\<not> word_after U post"
  shows "re_search U (False, Seq WordBoundary (Seq (Lits urgency_words) WordBoundary))
           (pre @ kw @ post)"
proof (rule re_searchI)
  let ?s0 = "(char_before pre, kw @ post)" and ?s1 = "(Some (last kw), post)"
  from urgency_word_ends [OF assms(1), of U]
  have ne: "kw \<noteq> []" and h: "is_word U (hd kw)" and l: "is_word U (last kw)" by simp_all
  have after: "word_after U (kw @ post)" using ne h by (cases kw) simp_all
  have wb1: "?s0 \<in> set (rmatch U False WordBoundary ?s0)"
    using after assms(2) by (intro rmatch_WordBoundary_mem) simp
  have lit: "?s1 \<in> set (rmatch U False (Lits urgency_words) ?s0)"
    using rmatch_Lits [OF assms(1), of False ?s0 _ U]
      match_lit_exact [of kw "char_before pre" post] ne by simp
  have wb2: "?s1 \<in> set (rmatch U False WordBoundary ?s1)"
    using l assms(3) by (intro rmatch_WordBoundary_mem) simp
  have "?s1 \<in> set (rmatch U False (Seq WordBoundary (Seq (Lits urgency_words) WordBoundary)) ?s0)"
    by (rule rmatch_Seq_mem [OF wb1 rmatch_Seq_mem [OF lit wb2]])
  then have "rmatch U False (Seq WordBoundary (Seq (Lits urgency_words) WordBoundary)) ?s0 \<noteq> []"
    by (metis empty_iff list.set(1))
  then show "rmatch U (fst (False, Seq WordBoundary (Seq (Lits urgency_words) WordBoundary)))
          (snd (False, Seq WordBoundary (Seq (Lits urgency_words) WordBoundary))) ?s0 \<noteq> []"
    by (simp del: rmatch.simps)
qed

lemma urgency_patterns_alt:
  "urgency_patterns =
     [(False, Seq WordBoundary (Seq (Lits urgency_words) WordBoundary)),
      (True, Lits urgency_keywords),
      (False, AtLeast 2 (of_char CHR ''!''))]"
  by (simp add: urgency_patterns_def urgency_words_def urgency_keywords_def)

section \<open>The scores of some concrete messages\<close>

text \<open>
  These messages are ASCII, so their scores do not depend on the Unicode table.
\<close>

lemma scores_Hi:
  "axis_score U (str ''Hi'') urgency_patterns = 0"
  "axis_score U (str ''Hi'') complaint_patterns = 0"
  "axis_score U (str ''Hi'') formal_patterns = 0"
  "axis_score U (str ''Hi'') positive_patterns = 0"
  by (simp_all add: axis_score_def re_search_def str_def char_eq_def sre_lower_def is_word_def
      urgency_patterns_def complaint_patterns_def formal_patterns_def positive_patterns_def)

lemma scores_bug:
  "axis_score U (str ''bug'') urgency_patterns = 0"
  "axis_score U (str ''bug'') complaint_patterns = 1 / 4"
  "axis_score U (str ''bug'') formal_patterns = 0"
  "axis_score U (str ''bug'') positive_patterns = 0"
  by (simp_all add: axis_score_def re_search_def str_def char_eq_def sre_lower_def is_word_def
      urgency_patterns_def complaint_patterns_def formal_patterns_def positive_patterns_def)

lemma scores_mixed:
  "axis_score U (str ''!! bug dear good'') urgency_patterns = 1 / 3"
  "axis_score U (str ''!! bug dear good'') complaint_patterns = 1 / 4"
  "axis_score U (str ''!! bug dear good'') formal_patterns = 1 / 3"
  "axis_score U (str ''!! bug dear good'') positive_patterns = 1 / 4"
  by (simp_all add: axis_score_def re_search_def str_def char_eq_def sre_lower_def is_word_def
      urgency_patterns_def complaint_patterns_def formal_patterns_def positive_patterns_def)

lemma complaint_score_poor_bug:
  "axis_score U (str ''!! poor bug'') complaint_patterns = 1 / 2"
  by (simp add: axis_score_def re_search_def str_def char_eq_def sre_lower_def complaint_patterns_def)

lemma scores_marks:
  "axis_score U (str ''Hi! Ok!'') urgency_patterns = 0"
  "axis_score U (str ''Hi! Ok!'') complaint_patterns = 0"
  "axis_score U (str ''Hi! Ok!'') formal_patterns = 0"
  "axis_score U (str ''Hi! Ok!'') positive_patterns = 0"
  by (simp_all add: axis_score_def re_search_def str_def char_eq_def sre_lower_def is_word_def
      urgency_patterns_def complaint_patterns_def formal_patterns_def positive_patterns_def)

section \<open>Properties of the tone detector\<close>

text \<open>
  C3. For each of the four axes the score of a message is the number of patterns of the
  axis's list that match somewhere in the message, divided by the number of patterns in
  the list and capped at 1. The four scores are computed independently and can all be
  non-zero for one message.
\<close>

theorem axis_scores_are_match_ratios:
  "analyze_message U msg =
     Inr [(''urgency'',
             min (of_nat (length (filter (\<lambda>p. re_search U p msg) urgency_patterns))
                    / of_nat (length urgency_patterns)) 1),
          (''complaint'',
             min (of_nat (length (filter (\<lambda>p. re_search U p msg) complaint_patterns))
                    / of_nat (length complaint_patterns)) 1),
          (''formality'',
             min (of_nat (length (filter (\<lambda>p. re_search U p msg) formal_patterns))
                    / of_nat (length formal_patterns)) 1),
          (''positivity'',
             min (of_nat (length (filter (\<lambda>p. re_search U p msg) positive_patterns))
                    / of_nat (length positive_patterns)) 1)]
   \<and> analyze_message U (str ''!! bug dear good'') =
     Inr [(''urgency'', 1 / 3), (''complaint'', 1 / 4), (''formality'', 1 / 3),
          (''positivity'', 1 / 4)]"
proof
  show "analyze_message U msg =
     Inr [(''urgency'',
             min (of_nat (length (filter (\<lambda>p. re_search U p msg) urgency_patterns))
                    / of_nat (length urgency_patterns)) 1),
          (''complaint'',
             min (of_nat (length (filter (\<lambda>p. re_search U p msg) complaint_patterns))
                    / of_nat (length complaint_patterns)) 1),
          (''formality'',
             min (of_nat (length (filter (\<lambda>p. re_search U p msg) formal_patterns))
                    / of_nat (length formal_patterns)) 1),
          (''positivity'',
             min (of_nat (length (filter (\<lambda>p. re_search U p msg) positive_patterns))
                    / of_nat (length positive_patterns)) 1)]"
    unfolding analyze_message_eq axis_score_def by (rule refl)
  show "analyze_message U (str ''!! bug dear good'') =
     Inr [(''urgency'', 1 / 3), (''complaint'', 1 / 4), (''formality'', 1 / 3),
          (''positivity'', 1 / 4)]"
    unfolding analyze_message_eq scores_mixed by (rule refl)
qed

text \<open>
  C2. For every message and optional context, \<open>detect_tone\<close> applies the ordered rules of
  \<open>spec_tone_rules\<close> to the four axis scores: direct with the urgency score when that
  score exceeds 0.3 or the lower-cased priority is \<open>critical\<close>; else empathetic, formal,
  friendly with the complaint, formality, positivity score when it exceeds 0.3; else
  professional with the mean of the strictly positive scores, or 0.5 when all four are
  zero. The context must not hold an integer as priority.
\<close>

theorem detect_tone_applies_ordered_rules:
  assumes "no_int_priority ctx"
  shows "detect_tone U msg ctx =
     Inr (fst (spec_tone_rules (axis_score U msg urgency_patterns)
                 (axis_score U msg complaint_patterns)
                 (axis_score U msg formal_patterns)
                 (axis_score U msg positive_patterns) (critical_priority ctx)),
          \<lparr>detected_tone =
             fst (spec_tone_rules (axis_score U msg urgency_patterns)
                 (axis_score U msg complaint_patterns)
                 (axis_score U msg formal_patterns)
                 (axis_score U msg positive_patterns) (critical_priority ctx)),
           confidence =
             snd (spec_tone_rules (axis_score U msg urgency_patterns)
                 (axis_score U msg complaint_patterns)
                 (axis_score U msg formal_patterns)
                 (axis_score U msg positive_patterns) (critical_priority ctx)),
           factors =
             [(''urgency'', axis_score U msg urgency_patterns),
              (''complaint'', axis_score U msg complaint_patterns),
              (''formality'', axis_score U msg formal_patterns),
              (''positivity'', axis_score U msg positive_patterns)]\<rparr>)"
  using detect_tone_eq [OF assms, of U msg] by (simp add: Let_def)

lemma critical_context:
  "no_int_priority (Some [(''priority'', PStr (str ''Critical''))])"
  "critical_priority (Some [(''priority'', PStr (str ''Critical''))])"
  by (simp_all add: no_int_priority_def critical_priority_def dict_get_def py_lower_def
      lower_char_def str_def)

theorem detect_tone_applies_ordered_rules_witness:
  "no_int_priority (Some [(''priority'', PStr (str ''Critical''))])
   \<and> detect_tone ascii_table (str ''Hi'') (Some [(''priority'', PStr (str ''Critical''))]) =
       Inr (''direct'',
            \<lparr>detected_tone = ''direct'', confidence = 0,
             factors = [(''urgency'', 0), (''complaint'', 0), (''formality'', 0),
                        (''positivity'', 0)]\<rparr>)"
  using detect_tone_applies_ordered_rules [OF critical_context(1), of ascii_table "str ''Hi''"]
  by (simp add: critical_context scores_Hi spec_tone_rules_def)

lemma tone_confidence_range:
  "0 \<le> snd (spec_tone_rules (axis_score U msg urgency_patterns)
                 (axis_score U msg complaint_patterns)
                 (axis_score U msg formal_patterns)
                 (axis_score U msg positive_patterns) crit)
   \<and> snd (spec_tone_rules (axis_score U msg urgency_patterns)
                 (axis_score U msg complaint_patterns)
                 (axis_score U msg formal_patterns)
                 (axis_score U msg positive_patterns) crit) \<le> 1"
proof -
  let ?u = "axis_score U msg urgency_patterns" and ?c = "axis_score U msg complaint_patterns"
  let ?f = "axis_score U msg formal_patterns" and ?p = "axis_score U msg positive_patterns"
  let ?r = "spec_tone_rules ?u ?c ?f ?p crit"
  show "0 \<le> snd ?r \<and> snd ?r \<le> 1"
  proof (cases "fst ?r = ''professional''")
    case True
    note pb = professional_branch [OF True]
    have "snd ?r = (if ?c = 0 \<and> ?p = 0 then 1 / 2 else 1 / 4)"
      using professional_confidence [of ?c ?p crit] True pb by simp
    then show ?thesis by simp
  next
    case False
    from spec_tone_rules_score [OF False]
    have "snd ?r = ?u \<or> snd ?r = ?c \<or> snd ?r = ?f \<or> snd ?r = ?p" by simp
    then show ?thesis
      using axis_score_bounds [of U msg] by metis
  qed
qed

lemma detect_tone_result:
  assumes "no_int_priority ctx"
  shows "\<exists>t m. detect_tone U msg ctx = Inr (t, m)
           \<and> t \<in> set (map tone_value ToneType_members)
           \<and> 0 \<le> confidence m \<and> confidence m \<le> 1"
proof -
  let ?r = "spec_tone_rules (axis_score U msg urgency_patterns)
              (axis_score U msg complaint_patterns) (axis_score U msg formal_patterns)
              (axis_score U msg positive_patterns) (critical_priority ctx)"
  have "fst ?r \<in> set (map tone_value ToneType_members)"
    using spec_tone_rules_label [of _ _ _ _ "critical_priority ctx"]
    by (auto simp: ToneType_members_def)
  with detect_tone_eq [OF assms, of U msg] tone_confidence_range [of U msg "critical_priority ctx"]
  show ?thesis by (simp add: Let_def)
qed

text \<open>
  C5. Every call of \<open>detect_tone\<close> (on a context without an integer priority) returns;
  the tone returned is the value of one of the five members of \<open>ToneType\<close>, the confidence
  lies between 0 and 1, and the keys of the factors are exactly urgency, complaint,
  formality and positivity.
\<close>

theorem detect_tone_result_invariants:
  assumes "no_int_priority ctx"
  shows "\<exists>t m. detect_tone U msg ctx = Inr (t, m)
           \<and> t \<in> set (map tone_value ToneType_members)
           \<and> detected_tone m = t
           \<and> 0 \<le> confidence m \<and> confidence m \<le> 1
           \<and> map fst (factors m) = [''urgency'', ''complaint'', ''formality'', ''positivity'']"
proof -
  let ?u = "axis_score U msg urgency_patterns" and ?c = "axis_score U msg complaint_patterns"
  let ?f = "axis_score U msg formal_patterns" and ?p = "axis_score U msg positive_patterns"
  let ?r = "spec_tone_rules ?u ?c ?f ?p (critical_priority ctx)"
  let ?m = "\<lparr>detected_tone = fst ?r, confidence = snd ?r,
             factors = [(''urgency'', ?u), (''complaint'', ?c), (''formality'', ?f),
                        (''positivity'', ?p)]\<rparr>"
  have eq: "detect_tone U msg ctx = Inr (fst ?r, ?m)"
    using detect_tone_eq [OF assms, of U msg] by (simp add: Let_def)
  have label: "fst ?r \<in> set (map tone_value ToneType_members)"
    using spec_tone_rules_label [of ?u ?c ?f ?p "critical_priority ctx"]
    by (auto simp: ToneType_members_def)
  have range: "0 \<le> snd ?r \<and> snd ?r \<le> 1"
    by (rule tone_confidence_range)
  show ?thesis
    unfolding eq using label range by simp
qed

theorem detect_tone_result_invariants_witness:
  "no_int_priority None
   \<and> (\<exists>t m. detect_tone ascii_table (str ''bug'') None = Inr (t, m)
           \<and> t \<in> set (map tone_value ToneType_members)
           \<and> detected_tone m = t
           \<and> 0 \<le> confidence m \<and> confidence m \<le> 1
           \<and> map fst (factors m) = [''urgency'', ''complaint'', ''formality'', ''positivity''])"
proof -
  have h: "no_int_priority None" by (simp add: no_int_priority_def)
  show ?thesis
    using h detect_tone_result_invariants [OF h, of ascii_table "str ''bug''"] by simp
qed

text \<open>
  C10. Whenever \<open>detect_tone\<close> returns the tone professional, the urgency and formality
  scores are 0, the complaint and positivity scores are 0 or 1/4, and the confidence is
  1/2 when all four scores are zero and 1/4 otherwise.
\<close>

theorem professional_confidence_quarter_or_half:
  assumes "detect_tone U msg ctx = Inr (''professional'', m)"
  shows "(confidence m = 1 / 4 \<or> confidence m = 1 / 2)
       \<and> (\<exists>c p. factors m = [(''urgency'', 0), (''complaint'', c), (''formality'', 0),
                              (''positivity'', p)]
                \<and> (c = 0 \<or> c = 1 / 4) \<and> (p = 0 \<or> p = 1 / 4)
                \<and> (confidence m = 1 / 2) = (c = 0 \<and> p = 0))"
proof -
  let ?u = "axis_score U msg urgency_patterns" and ?c = "axis_score U msg complaint_patterns"
  let ?f = "axis_score U msg formal_patterns" and ?p = "axis_score U msg positive_patterns"
  let ?r = "spec_tone_rules ?u ?c ?f ?p (critical_priority ctx)"
  have ok: "no_int_priority ctx"
    using assms detect_tone_int_priority [of ctx U msg] by auto
  from detect_tone_eq [OF ok, of U msg] assms
  have prof: "fst ?r = ''professional''"
    and m: "m = \<lparr>detected_tone = fst ?r, confidence = snd ?r,
             factors = [(''urgency'', ?u), (''complaint'', ?c), (''formality'', ?f),
                        (''positivity'', ?p)]\<rparr>"
    by (simp_all add: Let_def)
  note pb = professional_branch [OF prof]
  have conf: "snd ?r = (if ?c = 0 \<and> ?p = 0 then 1 / 2 else 1 / 4)"
    using professional_confidence [of ?c ?p "critical_priority ctx"] prof pb by simp
  have "confidence m = 1 / 4 \<or> confidence m = 1 / 2"
    using m conf by simp
  moreover have "factors m = [(''urgency'', 0), (''complaint'', ?c), (''formality'', 0),
                              (''positivity'', ?p)]"
    using m pb(1,2) by simp
  moreover have "(confidence m = 1 / 2) = (?c = 0 \<and> ?p = 0)"
    using m conf by simp
  ultimately show ?thesis using pb(3,4) by blast
qed

lemma detect_tone_bug:
  "detect_tone ascii_table (str ''bug'') None =
     Inr (''professional'',
          \<lparr>detected_tone = ''professional'', confidence = 1 / 4,
           factors = [(''urgency'', 0), (''complaint'', 1 / 4), (''formality'', 0),
                      (''positivity'', 0)]\<rparr>)"
proof -
  have h: "no_int_priority None" by (simp add: no_int_priority_def)
  show ?thesis
    using detect_tone_eq [OF h, of ascii_table "str ''bug''"]
    by (simp add: scores_bug spec_tone_rules_def critical_priority_def Let_def)
qed

theorem professional_confidence_quarter_or_half_witness:
  "detect_tone ascii_table (str ''bug'') None =
     Inr (''professional'',
          \<lparr>detected_tone = ''professional'', confidence = 1 / 4,
           factors = [(''urgency'', 0), (''complaint'', 1 / 4), (''formality'', 0),
                      (''positivity'', 0)]\<rparr>)
   \<and> (confidence \<lparr>detected_tone = ''professional'', confidence = 1 / 4,
           factors = [(''urgency'', 0), (''complaint'', 1 / 4), (''formality'', 0),
                      (''positivity'', 0 :: rat)]\<rparr> = 1 / 4
      \<or> confidence \<lparr>detected_tone = ''professional'', confidence = 1 / 4,
           factors = [(''urgency'', 0), (''complaint'', 1 / 4), (''formality'', 0),
                      (''positivity'', 0 :: rat)]\<rparr> = 1 / 2)"
  using detect_tone_bug professional_confidence_quarter_or_half [OF detect_tone_bug]
  by simp

text \<open>
  C4 as stated fails: a message can hold two exclamation marks that are not adjacent.
\<close>

theorem separate_exclamation_marks_not_direct:
  "count_list (str ''Hi! Ok!'') (of_char CHR ''!'') = 2
   \<and> detect_tone ascii_table (str ''Hi! Ok!'') None =
       Inr (''professional'',
            \<lparr>detected_tone = ''professional'', confidence = 1 / 2,
             factors = [(''urgency'', 0), (''complaint'', 0), (''formality'', 0),
                        (''positivity'', 0)]\<rparr>)"
proof
  show "count_list (str ''Hi! Ok!'') (of_char CHR ''!'') = 2" by (simp add: str_def)
  have h: "no_int_priority None" by (simp add: no_int_priority_def)
  show "detect_tone ascii_table (str ''Hi! Ok!'') None =
       Inr (''professional'',
            \<lparr>detected_tone = ''professional'', confidence = 1 / 2,
             factors = [(''urgency'', 0), (''complaint'', 0), (''formality'', 0),
                        (''positivity'', 0)]\<rparr>)"
    using detect_tone_eq [OF h, of ascii_table "str ''Hi! Ok!''"]
    by (simp add: scores_marks spec_tone_rules_def critical_priority_def Let_def)
qed

text \<open>
  C4, amended. \<open>detect_tone\<close> returns the tone direct for every message that contains
  two adjacent exclamation marks, or a piece of text whose lower-case form is one of the
  keywords \<open>urgent\<close>, \<open>emergency\<close>, \<open>asap\<close>, \<open>right away\<close>, \<open>immediately\<close>,
  \<open>right now\<close>, or one of the words \<open>URGENT\<close>, \<open>ASAP\<close>, \<open>EMERGENCY\<close>, \<open>CRITICAL\<close>,
  \<open>IMMEDIATE\<close> in capitals with no word character before or after it; complaint, formal
  or positive text in the same message does not change that. The context must not hold
  an integer as priority.
\<close>

theorem urgent_message_is_direct:
  assumes "no_int_priority ctx"
    and "(\<exists>pre post. msg = pre @ str ''!!'' @ post)
       \<or> (\<exists>pre mid post. msg = pre @ mid @ post \<and> py_lower mid \<in> set urgency_keywords)
       \<or> (\<exists>pre kw post. msg = pre @ kw @ post \<and> kw \<in> set urgency_words
             \<and> \<not> word_before U (char_before pre) \<and> \<not> word_after U post)"
  shows "\<exists>m. detect_tone U msg ctx = Inr (''direct'', m)"
proof -
  from assms(2) obtain p where "p \<in> set urgency_patterns" and "re_search U p msg"
  proof (elim disjE exE conjE)
    fix pre post
    assume "msg = pre @ str ''!!'' @ post"
    then have "re_search U (False, AtLeast 2 (of_char CHR ''!'')) msg"
      using exclamations_match [of U pre post] by simp
    then show ?thesis by (intro that [of "(False, AtLeast 2 (of_char CHR ''!''))"]) (simp_all add: urgency_patterns_alt)
  next
    fix pre mid post
    assume "msg = pre @ mid @ post" and "py_lower mid \<in> set urgency_keywords"
    then have "re_search U (True, Lits urgency_keywords) msg"
      using keyword_match [of mid U pre post] by simp
    then show ?thesis by (intro that [of "(True, Lits urgency_keywords)"]) (simp_all add: urgency_patterns_alt)
  next
    fix pre kw post
    assume "msg = pre @ kw @ post" and "kw \<in> set urgency_words"
      and "\<not> word_before U (char_before pre)" and "\<not> word_after U post"
    then have "re_search U (False, Seq WordBoundary (Seq (Lits urgency_words) WordBoundary)) msg"
      using word_match [of kw U pre post] by simp
    then show ?thesis
      by (intro that [of "(False, Seq WordBoundary (Seq (Lits urgency_words) WordBoundary))"])
        (simp_all add: urgency_patterns_alt)
  qed
  then show ?thesis using assms(1) by (rule urgency_match_direct)
qed

text \<open>The witness has a complaint score of 1/2 and is direct all the same.\<close>

theorem urgent_message_is_direct_witness:
  "no_int_priority None
   \<and> str ''!! poor bug'' = [] @ str ''!!'' @ str '' poor bug''
   \<and> axis_score ascii_table (str ''!! poor bug'') complaint_patterns = 1 / 2
   \<and> (\<exists>m. detect_tone ascii_table (str ''!! poor bug'') None = Inr (''direct'', m))"
proof -
  let ?msg = "str ''!! poor bug''"
  have h: "no_int_priority None" by (simp add: no_int_priority_def)
  have split: "?msg = [] @ str ''!!'' @ str '' poor bug''"
    by (simp add: str_def)
  have "(\<exists>pre post. ?msg = pre @ str ''!!'' @ post)
       \<or> (\<exists>pre mid post. ?msg = pre @ mid @ post \<and> py_lower mid \<in> set urgency_keywords)
       \<or> (\<exists>pre kw post. ?msg = pre @ kw @ post \<and> kw \<in> set urgency_words
             \<and> \<not> word_before ascii_table (char_before pre) \<and> \<not> word_after ascii_table post)"
    using split by blast
  from urgent_message_is_direct [OF h this] h split complaint_score_poor_bug [of ascii_table]
  show ?thesis by blast
qed

section \<open>Properties of the cleaning of the generated text\<close>

lemma startswith_iff: "startswith s p = (\<exists>r. s = p @ r)"
  by (induction s p rule: startswith.induct) auto

lemma split_from_nonempty: "split_from sep cur s \<noteq> []"
  by (induction sep cur s rule: split_from.induct) auto

lemma split_from_no_sep:
  "\<not> contains sep s \<Longrightarrow> split_from sep cur s = [cur @ s]"
  by (induction s arbitrary: cur) auto

lemma split_from_last:
  assumes "sep \<noteq> []" and "hd sep \<notin> set (tl sep)" and "\<not> contains sep post"
  shows "last (split_from sep cur (pre @ sep @ post)) = post"
proof (induction "length pre" arbitrary: pre cur rule: less_induct)
  case less
  show ?case
  proof (cases pre)
    case Nil
    obtain c cs where sep: "sep = c # cs" using assms(1) by (cases sep) auto
    have "startswith (sep @ post) sep" by (simp add: startswith_iff)
    then have "split_from sep cur (sep @ post) = cur # split_from sep [] post"
      using sep by simp
    then show ?thesis using Nil split_from_no_sep [OF assms(3)] by simp
  next
    case (Cons c pre')
    show ?thesis
    proof (cases "startswith (pre @ sep @ post) sep")
      case True
      have len: "length sep \<le> length pre"
      proof (rule ccontr)
        assume "\<not> length sep \<le> length pre"
        then have lt: "length pre < length sep" by simp
        from True obtain r where r: "pre @ sep @ post = sep @ r"
          by (auto simp: startswith_iff)
        have "(pre @ sep @ post) ! length pre = hd sep"
          using assms(1) by (simp add: nth_append hd_conv_nth)
        moreover have "(sep @ r) ! length pre = sep ! length pre"
          using lt by (simp add: nth_append)
        ultimately have at: "sep ! length pre = hd sep" using r by simp
        obtain n where n: "length pre = Suc n" using Cons by simp
        have less: "n < length (tl sep)" using lt n by simp
        then have "tl sep ! n = sep ! Suc n" by (rule nth_tl)
        moreover have "tl sep ! n \<in> set (tl sep)" using less by (rule nth_mem)
        ultimately have "sep ! length pre \<in> set (tl sep)" using n by simp
        with at assms(2) show False by simp
      qed
      then have d: "drop (length sep) (pre @ sep @ post) = drop (length sep) pre @ sep @ post"
        by simp
      have shorter: "length (drop (length sep) pre) < length pre"
        using assms(1) Cons by simp
      have "split_from sep cur (pre @ sep @ post)
              = cur # split_from sep [] (drop (length sep) pre @ sep @ post)"
        using True assms(1) Cons d by simp
      then show ?thesis
        using less(1) [OF shorter, of "[]"] split_from_nonempty by simp
    next
      case False
      then have "split_from sep cur (pre @ sep @ post)
              = split_from sep (cur @ [c]) (pre' @ sep @ post)"
        using Cons by simp
      then show ?thesis using less(1) [of pre' "cur @ [c]"] Cons by simp
    qed
  qed
qed

lemma last_item_nonempty: "xs \<noteq> [] \<Longrightarrow> last_item xs = Inr (last xs)"
  by (cases xs rule: rev_cases) (simp_all add: last_item_def)

lemma end_marker_facts:
  "str ''</think>'' \<noteq> []" "hd (str ''</think>'') \<notin> set (tl (str ''</think>''))"
  by (simp_all add: str_def)

lemma clean_message_eq:
  "clean_message generated =
     Inr (if contains (str ''<think>'') (py_strip generated)
          then py_strip (last (split_from (str ''</think>'') [] (py_strip generated)))
          else py_strip generated)"
  by (simp add: clean_message_def Let_def py_split_def end_marker_facts and_then_def
      last_item_nonempty split_from_nonempty)

lemma py_strip_ends:
  "py_strip s = [] \<or> (\<not> is_space (hd (py_strip s)) \<and> \<not> is_space (last (py_strip s)))"
proof (cases "py_strip s = []")
  case True
  then show ?thesis by simp
next
  case False
  let ?d = "dropWhile is_space s"
  let ?e = "dropWhile is_space (rev ?d)"
  have e: "?e \<noteq> []" using False by (simp add: py_strip_def)
  then have he: "\<not> is_space (hd ?e)" by (rule hd_dropWhile)
  have l: "last (py_strip s) = hd ?e" using e by (simp add: py_strip_def last_rev)
  have d: "?d \<noteq> []" using e by (metis dropWhile.simps(1) rev.simps(1))
  then have hd: "\<not> is_space (hd ?d)" by (rule hd_dropWhile)
  obtain ys where ys: "rev ?d = ys @ ?e"
    by (metis takeWhile_dropWhile_id)
  then have "?d = rev ?e @ rev ys" by (metis rev_append rev_rev_ident)
  then have "hd ?d = hd (rev ?e)" using e by (metis hd_append2 rev_is_Nil_conv)
  then have "\<not> is_space (hd (py_strip s))" using hd by (simp add: py_strip_def)
  with he l show ?thesis by simp
qed

lemma py_strip_idem: "py_strip (py_strip s) = py_strip s"
proof (cases "py_strip s = []")
  case True
  then show ?thesis by (simp add: py_strip_def [of "[]"])
next
  case False
  with py_strip_ends [of s] have h: "\<not> is_space (hd (py_strip s))" and l: "\<not> is_space (last (py_strip s))"
    by auto
  have 1: "dropWhile is_space (py_strip s) = py_strip s"
    using h False by (cases "py_strip s") auto
  have "\<not> is_space (hd (rev (py_strip s)))" using l False by (simp add: hd_rev)
  then have 2: "dropWhile is_space (rev (py_strip s)) = rev (py_strip s)"
    using False by (cases "rev (py_strip s)") auto
  show ?thesis
    unfolding py_strip_def [of "py_strip s"] 1 2 by simp
qed

lemma clean_message_result_stripped:
  assumes "clean_message generated = Inr r"
  shows "r = [] \<or> (\<not> is_space (hd r) \<and> \<not> is_space (last r))"
  using assms py_strip_ends unfolding clean_message_eq by (auto split: if_splits)

text \<open>
  C9 as stated fails when the generated text holds a second end marker: the claim keeps
  the text after the end marker that closes the thinking segment, the code keeps the
  text after the last end marker.
\<close>

theorem second_end_marker_counterexample:
  "clean_message (str ''<think>a</think>b</think>c'') = Inr (str ''c'')
   \<and> spec_clean_message (str ''<think>a</think>b</think>c'') = str ''b</think>c''"
  by (simp add: clean_message_def spec_clean_message_def py_strip_def py_split_def
      last_item_def and_then_def is_space_def str_def)

text \<open>
  C9, amended. The generated text is stripped of leading and trailing whitespace. When
  the stripped text does not contain \<open><think>\<close>, or contains no \<open></think>\<close>, it is the
  result. When it contains \<open><think>\<close> and at least one \<open></think>\<close>, everything up to and
  including the last \<open></think>\<close> is discarded and the rest, stripped, is the result. The
  result never starts or ends with whitespace.
\<close>

theorem clean_message_keeps_text_after_last_end_marker:
  "(\<not> contains (str ''<think>'') (py_strip generated)
      \<longrightarrow> clean_message generated = Inr (py_strip generated))
   \<and> (\<not> contains (str ''</think>'') (py_strip generated)
      \<longrightarrow> clean_message generated = Inr (py_strip generated))
   \<and> (contains (str ''<think>'') (py_strip generated)
        \<and> py_strip generated = pre @ str ''</think>'' @ post
        \<and> \<not> contains (str ''</think>'') post
      \<longrightarrow> clean_message generated = Inr (py_strip post))
   \<and> (\<exists>r. clean_message generated = Inr r
          \<and> (r = [] \<or> (\<not> is_space (hd r) \<and> \<not> is_space (last r))))"
proof (intro conjI impI)
  assume "\<not> contains (str ''<think>'') (py_strip generated)"
  then show "clean_message generated = Inr (py_strip generated)"
    by (simp add: clean_message_eq)
next
  assume "\<not> contains (str ''</think>'') (py_strip generated)"
  then show "clean_message generated = Inr (py_strip generated)"
    by (simp add: clean_message_eq split_from_no_sep py_strip_idem)
next
  assume a: "contains (str ''<think>'') (py_strip generated)
        \<and> py_strip generated = pre @ str ''</think>'' @ post
        \<and> \<not> contains (str ''</think>'') post"
  then have c: "contains (str ''<think>'') (py_strip generated)"
    and eq: "py_strip generated = pre @ str ''</think>'' @ post"
    and n: "\<not> contains (str ''</think>'') post"
    by blast+
  have "last (split_from (str ''</think>'') [] (pre @ str ''</think>'' @ post)) = post"
    by (rule split_from_last [OF end_marker_facts n])
  then have l: "last (split_from (str ''</think>'') [] (py_strip generated)) = post"
    using eq by simp
  show "clean_message generated = Inr (py_strip post)"
    unfolding clean_message_eq using c l by simp
next
  obtain r where r: "clean_message generated = Inr r" by (simp add: clean_message_eq)
  with clean_message_result_stripped [OF r]
  show "\<exists>r. clean_message generated = Inr r
          \<and> (r = [] \<or> (\<not> is_space (hd r) \<and> \<not> is_space (last r)))"
    by blast
qed

theorem clean_message_keeps_text_after_last_end_marker_witness:
  "contains (str ''<think>'') (py_strip (str '' <think>a</think>b</think> c ''))
   \<and> py_strip (str '' <think>a</think>b</think> c '')
       = str ''<think>a</think>b'' @ str ''</think>'' @ str '' c''
   \<and> \<not> contains (str ''</think>'') (str '' c'')
   \<and> clean_message (str '' <think>a</think>b</think> c '') = Inr (str ''c'')"
proof -
  have 1: "contains (str ''<think>'') (py_strip (str '' <think>a</think>b</think> c ''))"
    by (simp add: py_strip_def is_space_def str_def)
  have 2: "py_strip (str '' <think>a</think>b</think> c '')
       = str ''<think>a</think>b'' @ str ''</think>'' @ str '' c''"
    by (simp add: py_strip_def is_space_def str_def)
  have 3: "\<not> contains (str ''</think>'') (str '' c'')"
    by (simp add: str_def)
  have 4: "py_strip (str '' c'') = str ''c''"
    by (simp add: py_strip_def is_space_def str_def)
  from clean_message_keeps_text_after_last_end_marker
    [of "str '' <think>a</think>b</think> c ''" "str ''<think>a</think>b''" "str '' c''"]
    1 2 3 4
  show ?thesis by simp
qed

section \<open>Properties of \<open>generate_email_response\<close>\<close>

lemma template_lengths:
  "length template_rules = 1202" "length template_tone = 19" "length template_message = 20"
  "length template_requirements = 136" "length template_end = 196"
  by (simp_all add: template_rules_def template_tone_def template_message_def
      template_requirements_def template_end_def str_def)

lemma prompt_text_length:
  "length (prompt_text request g) =
     1573 + length (format_context (context' request)) + length g
       + length (customer_message request)
       + length (str_int (case max_length request of None \<Rightarrow> 2048
                          | Some n \<Rightarrow> if n = 0 then 2048 else n))"
  by (simp add: prompt_text_def template_lengths)

lemma build_prompt_eq: "build_prompt request g = Inr (prompt_text request g)"
  by (simp add: build_prompt_def prompt_text_def email_template_def and_then_def dict_item_def)

lemma ToneType_of_value: "ToneType_of (tone_value t) = Inr t"
  by (cases t) (simp_all add: ToneType_of_def ToneType_members_def)

lemma ToneType_of_invalid:
  assumes "t \<notin> set (map tone_value ToneType_members)"
  shows "ToneType_of t = Inl (ValueError (quoted (str t) @ str '' is not a valid ToneType''))"
proof -
  have "find (\<lambda>m. tone_value m = t) ToneType_members = None"
    using assms by (auto simp: find_None_iff)
  then show ?thesis by (simp add: ToneType_of_def)
qed

lemma guideline_defined: "\<exists>g. guideline t = Inr g"
  by (cases t) (simp_all add: guideline_def TONE_GUIDELINES_def)

lemma tone_value_member: "tone_value t \<in> set (map tone_value ToneType_members)"
  by (cases t) (simp_all add: ToneType_members_def)

lemma member_tone_value:
  assumes "t \<in> set (map tone_value ToneType_members)"
  shows "\<exists>tt. t = tone_value tt"
  using assms by auto

lemma ensure_valid_tone_valid:
  assumes "guideline t = Inr g"
  shows "ensure_valid_tone (tone_value t) = Inr (t, tone_value t, g, [])"
  by (simp add: ensure_valid_tone_def ToneType_of_value assms and_then_def)

lemma ensure_valid_tone_invalid:
  assumes "t \<notin> set (map tone_value ToneType_members)" and "guideline PROFESSIONAL = Inr g"
  shows "ensure_valid_tone t = Inr (PROFESSIONAL, ''professional'', g, [warning_record t])"
  by (simp add: ensure_valid_tone_def ToneType_of_invalid [OF assms(1)] assms(2) and_then_def
      warning_record_def)

lemma clean_message_defined: "\<exists>msg. clean_message generated = Inr msg"
  by (simp add: clean_message_eq)

lemma respond_after_validation:
  assumes "ensure_valid_tone t = Inr (tt, t1, g, lg)"
  shows "respond_with_tone e request t det =
     (case llm e (prompt_text request g) of
        Inl x \<Rightarrow> (lg @ [debug_record t1], Inl x)
      | Inr generated \<Rightarrow>
          (case clean_message generated of
             Inl x \<Rightarrow> (lg @ [debug_record t1], Inl x)
           | Inr msg \<Rightarrow>
               (case validate_detection det of
                  Inl x \<Rightarrow> (lg @ [debug_record t1], Inl x)
                | Inr d \<Rightarrow>
                    (lg @ [debug_record t1],
                     Inr (make_response e t1 (prompt_text request g) msg d)))))"
  by (simp add: respond_with_tone_def assms build_prompt_eq and_then_def Let_def debug_record_def
      make_response_def split: sum.splits)

lemma context_dict_priority:
  "dict_get (context_dict c) ''priority'' = opt_str (priority c)"
  by (simp add: context_dict_def dict_get_def)

lemma service_context_no_int_priority:
  "no_int_priority (Some (case c of Some ec \<Rightarrow> context_dict ec | None \<Rightarrow> []))"
proof (cases c)
  case None
  then show ?thesis by (simp add: no_int_priority_def dict_get_def)
next
  case (Some ec)
  then show ?thesis
    by (cases "priority ec") (simp_all add: no_int_priority_def context_dict_priority)
qed

lemma resolve_tone_explicit:
  assumes "tone request = Some t"
  shows "resolve_tone U request = Inr (tone_value t, None, [])"
  using assms by (simp add: resolve_tone_def)

lemma resolve_tone_detected:
  assumes "tone request = None"
  shows "\<exists>tt m. detect_tone U (customer_message request)
                 (Some (case context' request of Some c \<Rightarrow> context_dict c | None \<Rightarrow> []))
               = Inr (tone_value tt, m)
           \<and> resolve_tone U request =
               Inr (tone_value tt, Some m,
                    [(INFO, str ''Auto-detected tone: '' @ str (tone_value tt))])
           \<and> validate_detection (Some m) = Inr (Some m)"
proof -
  let ?cd = "case context' request of Some c \<Rightarrow> context_dict c | None \<Rightarrow> []"
  from detect_tone_result [OF service_context_no_int_priority, of U "customer_message request" "context' request"]
  obtain t m where d: "detect_tone U (customer_message request) (Some ?cd) = Inr (t, m)"
    and t: "t \<in> set (map tone_value ToneType_members)"
    and c: "0 \<le> confidence m" "confidence m \<le> 1"
    by blast
  from member_tone_value [OF t] obtain tt where tt: "t = tone_value tt" ..
  have "resolve_tone U request =
      Inr (tone_value tt, Some m, [(INFO, str ''Auto-detected tone: '' @ str (tone_value tt))])"
    using assms d tt by (simp add: resolve_tone_def and_then_def Let_def)
  moreover have "validate_detection (Some m) = Inr (Some m)"
    using c by (simp add: validate_detection_def)
  ultimately show ?thesis using d tt by blast
qed

lemma generate_after_resolve:
  assumes "resolve_tone U request = Inr (tone_value tt, det, lg0)"
    and "guideline tt = Inr g"
    and "validate_detection det = Inr det"
  shows "generate_email_response U e request =
     (case llm e (prompt_text request g) of
        Inl x \<Rightarrow> (lg0 @ [debug_record (tone_value tt)] @ [error_record x], Inl x)
      | Inr generated \<Rightarrow>
          (case clean_message generated of
             Inl x \<Rightarrow> (lg0 @ [debug_record (tone_value tt)] @ [error_record x], Inl x)
           | Inr msg \<Rightarrow>
               (lg0 @ [debug_record (tone_value tt)],
                Inr (make_response e (tone_value tt) (prompt_text request g) msg det))))"
proof -
  note r = respond_after_validation [OF ensure_valid_tone_valid [OF assms(2)], of e request det]
  show ?thesis
    by (simp add: generate_email_response_def assms(1) r assms(3) split: sum.splits)
qed

lemma generate_resolved:
  "\<exists>tt det lg0 g. resolve_tone U request = Inr (tone_value tt, det, lg0)
      \<and> guideline tt = Inr g \<and> validate_detection det = Inr det
      \<and> (tone request = None \<or> (tone request = Some tt \<and> det = None))"
proof (cases "tone request")
  case None
  from resolve_tone_detected [OF None, of U] guideline_defined None show ?thesis by metis
next
  case (Some t)
  have "validate_detection None = Inr None" by (simp add: validate_detection_def)
  with resolve_tone_explicit [OF Some, of U] guideline_defined Some show ?thesis by metis
qed

text \<open>
  C6. For every request with an explicit tone, a response is returned whenever the
  language model returns a text, and the response's metadata has that tone as
  \<open>tone_used\<close> and no \<open>tone_detection\<close>, whatever the message is. When the model fails, its
  error is raised.
\<close>

theorem explicit_tone_is_used_and_not_detected:
  assumes "tone request = Some t"
  shows "\<exists>g. guideline t = Inr g
     \<and> (case llm e (prompt_text request g) of
          Inl x \<Rightarrow> snd (generate_email_response U e request) = Inl x
        | Inr generated \<Rightarrow>
            (\<exists>response. snd (generate_email_response U e request) = Inr response
               \<and> tone_used (metadata response) = tone_value t
               \<and> tone_detection (metadata response) = None
               \<and> clean_message generated = Inr (message response)))"
proof -
  obtain g where g: "guideline t = Inr g" using guideline_defined by blast
  have v: "validate_detection None = Inr None" by (simp add: validate_detection_def)
  note eq = generate_after_resolve [OF resolve_tone_explicit [OF assms] g v, of U e]
  have "case llm e (prompt_text request g) of
          Inl x \<Rightarrow> snd (generate_email_response U e request) = Inl x
        | Inr generated \<Rightarrow>
            (\<exists>response. snd (generate_email_response U e request) = Inr response
               \<and> tone_used (metadata response) = tone_value t
               \<and> tone_detection (metadata response) = None
               \<and> clean_message generated = Inr (message response))"
  proof (cases "llm e (prompt_text request g)")
    case (Inl x)
    then show ?thesis using eq by simp
  next
    case (Inr generated)
    obtain msg where msg: "clean_message generated = Inr msg"
      using clean_message_defined by blast
    with Inr eq show ?thesis by (simp add: make_response_def)
  qed
  with g show ?thesis by blast
qed

lemma example_llm: "llm example_env p = Inr (str ''Dear Ann, we are on it.'')"
  by (simp add: example_env_def)

lemma example_clean: "clean_message (str ''Dear Ann, we are on it.'') = Inr (str ''Dear Ann, we are on it.'')"
  by (simp add: clean_message_def py_strip_def is_space_def str_def)

theorem explicit_tone_is_used_and_not_detected_witness:
  "tone example_request = Some FORMAL
   \<and> (\<exists>response. snd (generate_email_response ascii_table example_env example_request) = Inr response
         \<and> tone_used (metadata response) = ''formal''
         \<and> tone_detection (metadata response) = None
         \<and> message response = str ''Dear Ann, we are on it.'')"
proof -
  have h: "tone example_request = Some FORMAL" by (simp add: example_request_def)
  from explicit_tone_is_used_and_not_detected [OF h, where e = example_env and U = ascii_table]
  obtain response where "snd (generate_email_response ascii_table example_env example_request) = Inr response"
    and "tone_used (metadata response) = tone_value FORMAL"
    and "tone_detection (metadata response) = None"
    and "clean_message (str ''Dear Ann, we are on it.'') = Inr (message response)"
    unfolding example_llm by auto
  with h example_clean show ?thesis by auto
qed

text \<open>
  C7. For every successful generation, \<open>context_length\<close> in the metadata is the length of
  the assembled prompt that the language model was given: the 1573 characters of the
  template plus the lengths of the context block, of the guideline of the tone used, of
  the customer message and of the maximal length written in decimal. It is therefore
  greater than the length of the customer message.
\<close>

theorem context_length_is_prompt_length:
  assumes "snd (generate_email_response U e request) = Inr response"
  shows "\<exists>tt g generated.
           tone_used (metadata response) = tone_value tt
         \<and> guideline tt = Inr g
         \<and> llm e (prompt_text request g) = Inr generated
         \<and> context_length (metadata response) = length (prompt_text request g)
         \<and> context_length (metadata response) =
             1573 + length (format_context (context' request)) + length g
               + length (customer_message request)
               + length (str_int (case max_length request of None \<Rightarrow> 2048
                                  | Some n \<Rightarrow> if n = 0 then 2048 else n))
         \<and> length (customer_message request) < context_length (metadata response)"
proof -
  from generate_resolved [of U request]
  obtain tt det lg0 g where r: "resolve_tone U request = Inr (tone_value tt, det, lg0)"
    and g: "guideline tt = Inr g" and v: "validate_detection det = Inr det"
    by blast
  note eq = generate_after_resolve [OF r g v, of e]
  from assms eq obtain generated where gen: "llm e (prompt_text request g) = Inr generated"
    by (cases "llm e (prompt_text request g)") auto
  obtain msg where msg: "clean_message generated = Inr msg"
    using clean_message_defined by blast
  from assms eq gen msg
  have resp: "response = make_response e (tone_value tt) (prompt_text request g) msg det"
    by simp
  have len: "context_length (metadata response) = length (prompt_text request g)"
    and used: "tone_used (metadata response) = tone_value tt"
    unfolding resp by (simp_all add: make_response_def)
  show ?thesis
  proof (intro exI conjI)
    show "tone_used (metadata response) = tone_value tt" by (rule used)
    show "guideline tt = Inr g" by (rule g)
    show "llm e (prompt_text request g) = Inr generated" by (rule gen)
    show "context_length (metadata response) = length (prompt_text request g)" by (rule len)
    show "context_length (metadata response) =
             1573 + length (format_context (context' request)) + length g
               + length (customer_message request)
               + length (str_int (case max_length request of None \<Rightarrow> 2048
                                  | Some n \<Rightarrow> if n = 0 then 2048 else n))"
      unfolding len by (rule prompt_text_length)
    show "length (customer_message request) < context_length (metadata response)"
      unfolding len prompt_text_length by simp
  qed
qed

lemma tone_value_formal: "tone_value tt = ''formal'' \<Longrightarrow> tt = FORMAL"
  by (cases tt) simp_all

lemma str_int_2048: "str_int 2048 = str ''2048''"
  by (simp add: str_int_def str_def str_nat.simps [of 2048] str_nat.simps [of 204]
      str_nat.simps [of 20] str_nat.simps [of 2])

lemma example_lengths:
  "length (format_context (context' example_request)) = 31"
  "length (customer_message example_request) = 54"
  "length (str_int (case max_length example_request of None \<Rightarrow> 2048
                    | Some n \<Rightarrow> if n = 0 then 2048 else n)) = 4"
  by (simp_all add: example_request_def format_context_def str_int_2048 str_def)

lemma formal_guideline_length: "guideline FORMAL = Inr g \<Longrightarrow> length g = 83"
  by (auto simp: guideline_def TONE_GUIDELINES_def str_def)

theorem context_length_is_prompt_length_witness:
  "\<exists>response. snd (generate_email_response ascii_table example_env example_request) = Inr response
      \<and> length (customer_message example_request) = 54
      \<and> context_length (metadata response) = 1745"
proof -
  have h: "tone example_request = Some FORMAL" by (simp add: example_request_def)
  obtain g where g: "guideline FORMAL = Inr g" using guideline_defined by blast
  have v: "validate_detection None = Inr None" by (simp add: validate_detection_def)
  from generate_after_resolve [OF resolve_tone_explicit [OF h] g v, where U = ascii_table and e = example_env]
  obtain response where r: "snd (generate_email_response ascii_table example_env example_request) = Inr response"
    and u: "tone_used (metadata response) = ''formal''"
    by (simp add: example_llm example_clean make_response_def)
  from context_length_is_prompt_length [OF r]
  obtain tt g' where "tone_used (metadata response) = tone_value tt" and g': "guideline tt = Inr g'"
    and len: "context_length (metadata response) =
             1573 + length (format_context (context' example_request)) + length g'
               + length (customer_message example_request)
               + length (str_int (case max_length example_request of None \<Rightarrow> 2048
                                  | Some n \<Rightarrow> if n = 0 then 2048 else n))"
    by blast
  with u have "tt = FORMAL" using tone_value_formal by simp
  with g' have "length g' = 83" using formal_guideline_length by simp
  with len have "context_length (metadata response) = 1745" by (simp add: example_lengths)
  with r example_lengths(2) show ?thesis by blast
qed

lemma respond_with_tone_invalid:
  assumes "t \<notin> set (map tone_value ToneType_members)"
  shows "respond_with_tone e request t det =
     (case respond_with_tone e request ''professional'' det of
        (lg, r) \<Rightarrow> (warning_record t # lg, r))"
proof -
  obtain g where g: "guideline PROFESSIONAL = Inr g" using guideline_defined by blast
  note bad = respond_after_validation [OF ensure_valid_tone_invalid [OF assms g], of e request det]
  have "ensure_valid_tone ''professional'' = Inr (PROFESSIONAL, ''professional'', g, [])"
    using ensure_valid_tone_valid [OF g] by simp
  note good = respond_after_validation [OF this, of e request det]
  show ?thesis unfolding bad good by (simp split: sum.splits)
qed

text \<open>
  C8. When the tone that reaches the validation step of \<open>generate_email_response\<close> is not
  the value of a member of \<open>ToneType\<close>, the function goes on as it does for
  \<open>professional\<close>, with one more log record first, a warning: the prompt holds the
  professional guideline, and when the language model returns a text a response is
  returned whose \<open>tone_used\<close> is \<open>professional\<close>. The only failures left are those of the
  model and of an invalid detection record.
\<close>

theorem invalid_tone_falls_back_to_professional:
  assumes "t \<notin> set (map tone_value ToneType_members)"
  shows "\<exists>g. guideline PROFESSIONAL = Inr g
     \<and> fst (respond_with_tone e request t det) =
         (WARNING, str ''Invalid tone '' @ quoted (str t) @ str '', falling back to professional'')
           # fst (respond_with_tone e request ''professional'' det)
     \<and> snd (respond_with_tone e request t det) = snd (respond_with_tone e request ''professional'' det)
     \<and> (case llm e (prompt_text request g) of
          Inl x \<Rightarrow> snd (respond_with_tone e request t det) = Inl x
        | Inr generated \<Rightarrow>
            (case validate_detection det of
               Inl x \<Rightarrow> snd (respond_with_tone e request t det) = Inl x
             | Inr d \<Rightarrow>
                 (\<exists>response. snd (respond_with_tone e request t det) = Inr response
                      \<and> tone_used (metadata response) = ''professional''
                      \<and> context_length (metadata response) = length (prompt_text request g)
                      \<and> clean_message generated = Inr (message response))))"
proof -
  obtain g where g: "guideline PROFESSIONAL = Inr g" using guideline_defined by blast
  note bad = respond_after_validation [OF ensure_valid_tone_invalid [OF assms g], of e request det]
  note eq = respond_with_tone_invalid [OF assms, of e request det]
  have logs: "fst (respond_with_tone e request t det) =
         (WARNING, str ''Invalid tone '' @ quoted (str t) @ str '', falling back to professional'')
           # fst (respond_with_tone e request ''professional'' det)"
    unfolding eq by (simp add: warning_record_def split: prod.splits)
  have results: "snd (respond_with_tone e request t det) = snd (respond_with_tone e request ''professional'' det)"
    unfolding eq by (simp split: prod.splits)
  have outcome: "case llm e (prompt_text request g) of
          Inl x \<Rightarrow> snd (respond_with_tone e request t det) = Inl x
        | Inr generated \<Rightarrow>
            (case validate_detection det of
               Inl x \<Rightarrow> snd (respond_with_tone e request t det) = Inl x
             | Inr d \<Rightarrow>
                 (\<exists>response. snd (respond_with_tone e request t det) = Inr response
                      \<and> tone_used (metadata response) = ''professional''
                      \<and> context_length (metadata response) = length (prompt_text request g)
                      \<and> clean_message generated = Inr (message response)))"
  proof (cases "llm e (prompt_text request g)")
    case (Inl x)
    then show ?thesis unfolding bad by simp
  next
    case (Inr generated)
    obtain msg where msg: "clean_message generated = Inr msg"
      using clean_message_defined by blast
    show ?thesis
    proof (cases "validate_detection det")
      case (Inl x)
      with Inr msg show ?thesis unfolding bad by simp
    next
      case d: (Inr d)
      with Inr msg show ?thesis unfolding bad by (simp add: make_response_def)
    qed
  qed
  from g logs results outcome show ?thesis by blast
qed

theorem invalid_tone_falls_back_to_professional_witness:
  "''angry'' \<notin> set (map tone_value ToneType_members)
   \<and> fst (respond_with_tone example_env example_request ''angry'' None) =
       [(WARNING, str ''Invalid tone '' @ quoted (str ''angry'') @ str '', falling back to professional''),
        (DEBUG, str ''Generating email response with tone: '' @ str ''professional'')]
   \<and> (\<exists>response. snd (respond_with_tone example_env example_request ''angry'' None) = Inr response
         \<and> tone_used (metadata response) = ''professional''
         \<and> message response = str ''Dear Ann, we are on it.'')"
proof -
  have h: "''angry'' \<notin> set (map tone_value ToneType_members)"
    by (simp add: ToneType_members_def)
  have v: "validate_detection None = Inr None" by (simp add: validate_detection_def)
  obtain g where g: "guideline PROFESSIONAL = Inr g" using guideline_defined by blast
  have "ensure_valid_tone ''professional'' = Inr (PROFESSIONAL, ''professional'', g, [])"
    using ensure_valid_tone_valid [OF g] by simp
  from respond_after_validation [OF this, of example_env example_request None]
  have good: "fst (respond_with_tone example_env example_request ''professional'' None) =
      [(DEBUG, str ''Generating email response with tone: '' @ str ''professional'')]"
    by (simp add: example_llm example_clean v debug_record_def)
  from invalid_tone_falls_back_to_professional [OF h, of example_env example_request None]
  obtain g' where logs: "fst (respond_with_tone example_env example_request ''angry'' None) =
         (WARNING, str ''Invalid tone '' @ quoted (str ''angry'') @ str '', falling back to professional'')
           # fst (respond_with_tone example_env example_request ''professional'' None)"
    and out: "case llm example_env (prompt_text example_request g') of
          Inl x \<Rightarrow> snd (respond_with_tone example_env example_request ''angry'' None) = Inl x
        | Inr generated \<Rightarrow>
            (case validate_detection None of
               Inl x \<Rightarrow> snd (respond_with_tone example_env example_request ''angry'' None) = Inl x
             | Inr d \<Rightarrow>
                 (\<exists>response. snd (respond_with_tone example_env example_request ''angry'' None) = Inr response
                      \<and> tone_used (metadata response) = ''professional''
                      \<and> context_length (metadata response) = length (prompt_text example_request g')
                      \<and> clean_message generated = Inr (message response)))"
    by blast
  from out obtain response where
    "snd (respond_with_tone example_env example_request ''angry'' None) = Inr response"
    "tone_used (metadata response) = ''professional''"
    "clean_message (str ''Dear Ann, we are on it.'') = Inr (message response)"
    unfolding example_llm v by auto
  with h logs good example_clean show ?thesis by auto
qed

text \<open>
  The tone that reaches the validation step is always valid when it comes from the first
  block of the function, so the fallback is not taken for a request of the declared type.
\<close>

lemma resolved_tone_is_valid:
  assumes "resolve_tone U request = Inr (t, det, lg)"
  shows "t \<in> set (map tone_value ToneType_members)"
  using assms generate_resolved [of U request] tone_value_member by auto

section \<open>Requests without a tone\<close>

text \<open>
  \<open>LangChainService.generate_email_response\<close> hands \<open>request.context.dict()\<close> to the
  detector: all seven fields, the unset ones with the value \<open>None\<close>. The detector only
  reads the priority and treats \<open>None\<close> like a missing key, so its result is the same as
  on the dictionary without the unset fields.
\<close>

lemma map_of_exclude_none_absent:
  assumes "k \<notin> fst ` set d"
  shows "map_of (exclude_none d) k = None"
proof -
  have "fst ` set (exclude_none d) \<subseteq> fst ` set d" by (auto simp: exclude_none_def)
  with assms have "k \<notin> fst ` set (exclude_none d)" by blast
  then show ?thesis by (simp add: map_of_eq_None_iff)
qed

lemma dict_get_exclude_none:
  assumes "distinct (map fst d)"
  shows "dict_get (exclude_none d) k = dict_get d k"
  using assms
proof (induction d)
  case Nil
  show ?case by (simp add: exclude_none_def)
next
  case (Cons kv d)
  obtain k' v where kv: "kv = (k', v)" by (cases kv)
  from Cons.prems kv have absent: "k' \<notin> fst ` set d" and dist: "distinct (map fst d)" by auto
  note IH = Cons.IH [OF dist]
  show ?case
  proof (cases "v = PNone")
    case True
    then have drop: "exclude_none (kv # d) = exclude_none d" using kv by (simp add: exclude_none_def)
    show ?thesis
    proof (cases "k = k'")
      case True
      with absent have "map_of (exclude_none d) k = None" by (simp add: map_of_exclude_none_absent)
      with True \<open>v = PNone\<close> kv drop show ?thesis by (simp add: dict_get_def)
    next
      case False
      with kv drop IH show ?thesis by (simp add: dict_get_def)
    qed
  next
    case False
    then have keep: "exclude_none (kv # d) = kv # exclude_none d" using kv by (simp add: exclude_none_def)
    from IH kv show ?thesis unfolding keep by (simp add: dict_get_def)
  qed
qed

lemma exclude_none_empty:
  assumes "exclude_none d = []"
  shows "dict_get d k = PNone"
proof -
  from assms have all: "\<forall>kv \<in> set d. snd kv = PNone"
    by (auto simp: exclude_none_def filter_empty_conv)
  show ?thesis
  proof (cases "map_of d k")
    case None
    then show ?thesis by (simp add: dict_get_def)
  next
    case (Some v)
    then have "(k, v) \<in> set d" by (rule map_of_SomeD)
    with all have "v = PNone" by auto
    with Some show ?thesis by (simp add: dict_get_def)
  qed
qed

lemma detect_tone_exclude_none:
  assumes "distinct (map fst d)"
  shows "detect_tone U msg (Some (exclude_none d)) = detect_tone U msg (Some d)"
proof (cases "exclude_none d = []")
  case True
  from exclude_none_empty [OF True, of "''priority''"] True show ?thesis
    by (simp add: detect_tone_def dict_get_def)
next
  case False
  then have "d \<noteq> []" by (auto simp: exclude_none_def)
  with False dict_get_exclude_none [OF assms, of "''priority''"] show ?thesis
    by (simp add: detect_tone_def)
qed

lemma context_dict_distinct: "distinct (map fst (context_dict c))"
  by (simp add: context_dict_def)

text \<open>
  So the service itself handles a request without a tone as the specification says: it
  calls \<open>detect_tone\<close> on the message and the context, uses the detected tone, and puts the
  detector's metadata into \<open>tone_detection\<close>.
\<close>

lemma service_detects_missing_tone:
  assumes "tone request = None"
  shows "\<exists>tt m g.
           detect_tone U (customer_message request)
             (Some (case context' request of
                      Some c \<Rightarrow> exclude_none (context_dict c) | None \<Rightarrow> []))
             = Inr (tone_value tt, m)
         \<and> guideline tt = Inr g
         \<and> (case llm e (prompt_text request g) of
              Inl x \<Rightarrow> snd (generate_email_response U e request) = Inl x
            | Inr generated \<Rightarrow>
                (\<exists>response. snd (generate_email_response U e request) = Inr response
                   \<and> tone_used (metadata response) = tone_value tt
                   \<and> tone_detection (metadata response) = Some m))"
proof -
  from resolve_tone_detected [OF assms, of U]
  obtain tt m where d: "detect_tone U (customer_message request)
             (Some (case context' request of Some c \<Rightarrow> context_dict c | None \<Rightarrow> []))
             = Inr (tone_value tt, m)"
    and r: "resolve_tone U request =
               Inr (tone_value tt, Some m,
                    [(INFO, str ''Auto-detected tone: '' @ str (tone_value tt))])"
    and v: "validate_detection (Some m) = Inr (Some m)"
    by blast
  have d': "detect_tone U (customer_message request)
             (Some (case context' request of
                      Some c \<Rightarrow> exclude_none (context_dict c) | None \<Rightarrow> []))
             = Inr (tone_value tt, m)"
    using d detect_tone_exclude_none [OF context_dict_distinct, of U "customer_message request"]
    by (cases "context' request") simp_all
  obtain g where g: "guideline tt = Inr g" using guideline_defined by blast
  note eq = generate_after_resolve [OF r g v, of e]
  have "case llm e (prompt_text request g) of
              Inl x \<Rightarrow> snd (generate_email_response U e request) = Inl x
            | Inr generated \<Rightarrow>
                (\<exists>response. snd (generate_email_response U e request) = Inr response
                   \<and> tone_used (metadata response) = tone_value tt
                   \<and> tone_detection (metadata response) = Some m)"
  proof (cases "llm e (prompt_text request g)")
    case (Inl x)
    then show ?thesis using eq by simp
  next
    case (Inr generated)
    obtain msg where "clean_message generated = Inr msg"
      using clean_message_defined by blast
    with Inr eq show ?thesis by (simp add: make_response_def)
  qed
  with d' g show ?thesis by blast
qed

lemma context_dict_keeps_unset_fields:
  "map fst (context_dict c) =
     [''customer_name'', ''customer_history'', ''account_type'', ''previous_interactions'',
      ''priority'', ''department'', ''additional_notes'']"
  "map fst (exclude_none (context_dict
      \<lparr>customer_name = None, customer_history = None, account_type = None,
       previous_interactions = None, priority = Some p, department = None,
       additional_notes = None\<rparr>)) = [''priority'']"
  by (simp_all add: context_dict_def exclude_none_def)

text \<open>
  C1. The claim fails one level up: \<open>AIAgent.generate_email_response\<close> reads
  \<open>request.tone.value\<close> before it calls the service, so for every request without a tone
  it raises \<open>AttributeError\<close>; the message has been stored in the agent's context, the
  detector is never called and no response is built.
\<close>

theorem agent_raises_without_tone:
  "AIAgent_generate_email_response U e now_iso ctx (request\<lparr>tone := None\<rparr>) =
     (ctx(''last_email'' \<mapsto> customer_message request), [],
      Inl (AttributeError (quoted (str ''NoneType'') @ str '' object has no attribute ''
                           @ quoted (str ''value''))))"
  by (simp add: AIAgent_generate_email_response_def)

text \<open>With a healthy language model the endpoint answers such a request with status 500.\<close>

lemma endpoint_answers_500_without_tone:
  assumes "health_check e"
  shows "snd (endpoint_generate_email_response U e now_iso ctx (request\<lparr>tone := None\<rparr>)) =
     HttpError 500 (str ''Internal server error'')
       (quoted (str ''NoneType'') @ str '' object has no attribute '' @ quoted (str ''value''))"
  using assms
  by (simp add: endpoint_generate_email_response_def AIAgent_generate_email_response_def)

text \<open>With an explicit tone the agent hands the service's result on.\<close>

lemma agent_with_tone:
  assumes "tone request = Some t"
  shows "snd (snd (AIAgent_generate_email_response U e now_iso ctx request)) =
     snd (generate_email_response U e request)"
  using assms by (simp add: AIAgent_generate_email_response_def split: prod.splits)

end
